theory Spec2Isabelle
  imports Main "HOL-Library.Multiset"
begin

section \<open>JavaScript strings\<close>

text \<open>
  A string is a list of code units below 256. The helpers follow the JavaScript
  methods the routes call: \<^verbatim>\<open>startsWith\<close>, \<^verbatim>\<open>substring(n)\<close> (it is \<open>drop n\<close>),
  \<^verbatim>\<open>split(sep)\<close> for a one-character separator, \<^verbatim>\<open>trim\<close>, \<^verbatim>\<open>toLowerCase\<close>,
  \<^verbatim>\<open>Array.prototype.find\<close> and an index read that gives \<^verbatim>\<open>undefined\<close> out of range.
\<close>

definition startsWith :: "string \<Rightarrow> string \<Rightarrow> bool" where
  "startsWith s p = (take (length p) s = p)"

text \<open>\<^verbatim>\<open>s.split(sep)\<close>: n separators give n + 1 pieces; the empty string gives one empty piece.
  \<open>cur\<close> holds the piece being read, last character first.\<close>

fun splitFrom :: "char \<Rightarrow> string \<Rightarrow> string \<Rightarrow> string list" where
  "splitFrom sep cur [] = [rev cur]"
| "splitFrom sep cur (c # cs) =
     (if c = sep then rev cur # splitFrom sep [] cs else splitFrom sep (c # cur) cs)"

definition split :: "char \<Rightarrow> string \<Rightarrow> string list" where
  "split sep s = splitFrom sep [] s"

text \<open>The white space \<^verbatim>\<open>trim\<close> removes, among the code units below 256:
  tab, line feed, vertical tab, form feed, carriage return, space and no-break space.\<close>

definition isWhiteSpace :: "char \<Rightarrow> bool" where
  "isWhiteSpace c = ((of_char c :: nat) \<in> {9, 10, 11, 12, 13, 32, 160})"

definition trim :: "string \<Rightarrow> string" where
  "trim s = rev (dropWhile isWhiteSpace (rev (dropWhile isWhiteSpace s)))"

text \<open>\<^verbatim>\<open>toLowerCase\<close> on code units below 256: A-Z and the Latin-1 capitals
  (192 to 222 but the multiplication sign 215) move up by 32.\<close>

definition lowerChar :: "char \<Rightarrow> char" where
  "lowerChar c =
     (let n = (of_char c :: nat) in
      if (65 \<le> n \<and> n \<le> 90) \<or> (192 \<le> n \<and> n \<le> 222 \<and> n \<noteq> 215)
      then char_of (n + 32) else c)"

definition toLowerCase :: "string \<Rightarrow> string" where
  "toLowerCase s = map lowerChar s"

text \<open>\<^verbatim>\<open>xs[i]\<close>: \<open>None\<close> stands for \<^verbatim>\<open>undefined\<close>.\<close>

fun nth_opt :: "'a list \<Rightarrow> nat \<Rightarrow> 'a option" where
  "nth_opt [] n = None"
| "nth_opt (x # xs) 0 = Some x"
| "nth_opt (x # xs) (Suc n) = nth_opt xs n"

section \<open>Session extractor\<close>

text \<open>
  The two headers a route reads: \<^verbatim>\<open>request.headers.get('authorization')\<close> and
  \<^verbatim>\<open>request.headers.get('cookie')\<close>; \<open>None\<close> is \<^verbatim>\<open>null\<close>.
\<close>

record headers =
  authorization :: "string option"
  cookie :: "string option"

text \<open>
  The token lookup that \<^verbatim>\<open>getUserFromToken\<close> (both task routes) and the handler of
  \<^verbatim>\<open>GET /api/auth/me\<close> share, line for line:
  \<^verbatim>\<open>
  if (authHeader && authHeader.startsWith('Bearer ')) {
    token = authHeader.substring(7);
  } else if (cookieHeader) {
    const cookies = cookieHeader.split(';');
    const authCookie = cookies.find(cookie => cookie.trim().startsWith('auth-token='));
    if (authCookie) { token = authCookie.split('=')[1]; }
  }
  \<close>
  \<open>None\<close> is the initial \<^verbatim>\<open>null\<close> (or the \<^verbatim>\<open>undefined\<close> of an index out of range).
\<close>

definition cookieToken :: "string \<Rightarrow> string option" where
  "cookieToken cookieHeader =
     (case find (\<lambda>c. startsWith (trim c) ''auth-token='') (split CHR '';'' cookieHeader) of
        None \<Rightarrow> None
      | Some authCookie \<Rightarrow> nth_opt (split CHR ''='' authCookie) 1)"

definition tokenFromCookies :: "string option \<Rightarrow> string option" where
  "tokenFromCookies cookieHeader =
     (case cookieHeader of
        None \<Rightarrow> None
      | Some c \<Rightarrow> if c = [] then None else cookieToken c)"

definition extractToken :: "headers \<Rightarrow> string option" where
  "extractToken h =
     (case authorization h of
        None \<Rightarrow> tokenFromCookies (cookie h)
      | Some authHeader \<Rightarrow>
          if authHeader \<noteq> [] \<and> startsWith authHeader ''Bearer ''
          then Some (drop 7 authHeader)
          else tokenFromCookies (cookie h))"

section \<open>Data model\<close>

datatype TaskStatus = PENDING | IN_PROGRESS | COMPLETED

datatype TaskPriority = LOW | MEDIUM | HIGH | URGENT

datatype TaskCategory = WORK | PERSONAL | HEALTH | FINANCE | LEARNING | OTHER

text \<open>The enums' string values, as \<^verbatim>\<open>z.nativeEnum\<close> reads them.\<close>

definition parseStatus :: "string \<Rightarrow> TaskStatus option" where
  "parseStatus s =
     (if s = ''pending'' then Some PENDING
      else if s = ''in_progress'' then Some IN_PROGRESS
      else if s = ''completed'' then Some COMPLETED
      else None)"

definition parsePriority :: "string \<Rightarrow> TaskPriority option" where
  "parsePriority s =
     (if s = ''low'' then Some LOW
      else if s = ''medium'' then Some MEDIUM
      else if s = ''high'' then Some HIGH
      else if s = ''urgent'' then Some URGENT
      else None)"

definition parseCategory :: "string \<Rightarrow> TaskCategory option" where
  "parseCategory s =
     (if s = ''work'' then Some WORK
      else if s = ''personal'' then Some PERSONAL
      else if s = ''health'' then Some HEALTH
      else if s = ''finance'' then Some FINANCE
      else if s = ''learning'' then Some LEARNING
      else if s = ''other'' then Some OTHER
      else None)"

text \<open>
  An \<^verbatim>\<open>ObjectId\<close> is kept as its canonical string, the one JSON carries. A time is
  a \<^verbatim>\<open>Date\<close>'s milliseconds. \<open>None\<close> in an optional field is \<^verbatim>\<open>null\<close> or
  \<^verbatim>\<open>undefined\<close>: the field is not set.
\<close>

type_synonym oid = string
type_synonym time = int

record Task =
  task_id :: oid
  title :: string
  description :: "string option"
  status :: TaskStatus
  priority :: TaskPriority
  category :: TaskCategory
  dueDate :: "time option"
  completedAt :: "time option"
  userId :: oid
  createdAt :: time
  updatedAt :: time

record User =
  user_id :: oid
  name :: string
  email :: string
  password :: string
  avatar :: "string option"
  user_createdAt :: time
  user_updatedAt :: time

text \<open>The two collections, in insertion order.\<close>

record db =
  users :: "User list"
  tasks :: "Task list"

section \<open>Libraries and process environment\<close>

text \<open>
  The errors \<^verbatim>\<open>jwt.verify\<close> throws. In the jsonwebtoken package
  \<^verbatim>\<open>TokenExpiredError\<close> and \<^verbatim>\<open>NotBeforeError\<close> are subclasses of
  \<^verbatim>\<open>JsonWebTokenError\<close>, so \<^verbatim>\<open>instanceof jwt.JsonWebTokenError\<close> holds of all
  three. A malformed token is \<^verbatim>\<open>JsonWebTokenError('jwt malformed')\<close>, a wrong
  signature \<^verbatim>\<open>JsonWebTokenError('invalid signature')\<close>. \<open>OtherError\<close> is an error of
  any other class, by the name of the class (a \<^verbatim>\<open>SyntaxError\<close> for one): it is an
  instance of neither.
\<close>

datatype jwt_error =
    JsonWebTokenError string
  | NotBeforeError
  | TokenExpiredError
  | OtherError string

definition Malformed :: jwt_error where
  "Malformed = JsonWebTokenError ''jwt malformed''"

definition SignatureInvalid :: jwt_error where
  "SignatureInvalid = JsonWebTokenError ''invalid signature''"

definition Expired :: jwt_error where
  "Expired = TokenExpiredError"

fun instanceof_JsonWebTokenError :: "jwt_error \<Rightarrow> bool" where
  "instanceof_JsonWebTokenError (JsonWebTokenError m) = True"
| "instanceof_JsonWebTokenError NotBeforeError = True"
| "instanceof_JsonWebTokenError TokenExpiredError = True"
| "instanceof_JsonWebTokenError (OtherError n) = False"

fun instanceof_TokenExpiredError :: "jwt_error \<Rightarrow> bool" where
  "instanceof_TokenExpiredError TokenExpiredError = True"
| "instanceof_TokenExpiredError e = False"

text \<open>The decoded payload; \<open>iat\<close> and \<open>exp\<close> are in seconds.\<close>

record JWTPayload =
  jwt_userId :: string
  jwt_email :: string
  iat :: int
  exp :: int

text \<open>
  What a handler takes from outside the repository, as parameters:
  \<^item> \<open>NEXTAUTH_SECRET\<close>: \<^verbatim>\<open>process.env.NEXTAUTH_SECRET\<close>, \<open>None\<close> when unset;
  \<^item> \<open>now\<close>: \<^verbatim>\<open>new Date()\<close> during the request; \<open>today\<close>: that day's local midnight
    (\<^verbatim>\<open>today.setHours(0, 0, 0, 0)\<close>);
  \<^item> \<open>jwt_sign payload secret expiresIn clock\<close> and \<open>jwt_verify token secret clock\<close>: the
    jsonwebtoken calls, the clock in seconds;
  \<^item> \<open>bcrypt_hash\<close> (cost and salt included) and \<open>bcrypt_compare\<close>, \<open>None\<close> when the
    comparison throws;
  \<^item> \<open>parseDate\<close>: \<^verbatim>\<open>new Date(string)\<close>, \<open>None\<close> for an invalid date;
  \<^item> \<open>castObjectId\<close>: Mongoose's cast of a string to an \<^verbatim>\<open>ObjectId\<close>, \<open>None\<close> when it
    throws a \<^verbatim>\<open>CastError\<close>;
  \<^item> \<open>zod_email\<close>: the check of \<^verbatim>\<open>z.string().email()\<close>.
\<close>

record env =
  NEXTAUTH_SECRET :: "string option"
  now :: time
  today :: time
  jwt_sign :: "string \<times> string \<Rightarrow> string \<Rightarrow> int \<Rightarrow> int \<Rightarrow> string"
  jwt_verify :: "string \<Rightarrow> string \<Rightarrow> int \<Rightarrow> jwt_error + JWTPayload"
  bcrypt_hash :: "string \<Rightarrow> string"
  bcrypt_compare :: "string \<Rightarrow> string \<Rightarrow> bool option"
  parseDate :: "string \<Rightarrow> time option"
  castObjectId :: "string \<Rightarrow> oid option"
  zod_email :: "string \<Rightarrow> bool"

text \<open>\<^verbatim>\<open>Math.floor(Date.now() / 1000)\<close>, the clock jsonwebtoken reads.\<close>

definition clock :: "env \<Rightarrow> int" where
  "clock e = now e div 1000"

text \<open>
  \<^verbatim>\<open>getUserFromToken\<close> of \<^verbatim>\<open>app/api/tasks/route.ts\<close> and
  \<^verbatim>\<open>app/api/tasks/[id]/route.ts\<close> (the same text in both). A missing token, an empty
  token, an unset or empty secret, and every error \<^verbatim>\<open>jwt.verify\<close> throws give
  \<^verbatim>\<open>null\<close>.
\<close>

definition getUserFromToken :: "env \<Rightarrow> headers \<Rightarrow> string option" where
  "getUserFromToken e h =
     (case extractToken h of
        None \<Rightarrow> None
      | Some token \<Rightarrow>
          if token = [] then None
          else (case NEXTAUTH_SECRET e of
                  None \<Rightarrow> None
                | Some secret \<Rightarrow>
                    if secret = [] then None
                    else (case jwt_verify e token secret (clock e) of
                            Inl err \<Rightarrow> None
                          | Inr decoded \<Rightarrow> Some (jwt_userId decoded))))"

section \<open>Responses\<close>

record userResponse =
  ur_id :: oid
  ur_name :: string
  ur_email :: string
  ur_avatar :: "string option"
  ur_createdAt :: time

datatype payload =
    NoData
  | TaskData Task
  | TasksData "Task list"
  | UserData userResponse
  | LoginData userResponse string

text \<open>
  The JSON envelope \<^verbatim>\<open>ApiResponse\<close> with the HTTP status, and the cookie the response
  sets (name, value, max-age) if any. \<open>fieldErrors\<close> and \<open>details\<close> hold the names of the
  fields that failed; the message texts the libraries compose are not modelled.
\<close>

record response =
  http_status :: nat
  success :: bool
  error :: "string option"
  message :: "string option"
  data :: payload
  fieldErrors :: "string list option"
  details :: "string list option"
  setCookie :: "(string \<times> string \<times> nat) option"

definition failure :: "nat \<Rightarrow> string \<Rightarrow> response" where
  "failure code msg =
     \<lparr>http_status = code, success = False, error = Some msg, message = None, data = NoData,
      fieldErrors = None, details = None, setCookie = None\<rparr>"

definition succeed :: "payload \<Rightarrow> string option \<Rightarrow> response" where
  "succeed d msg =
     \<lparr>http_status = 200, success = True, error = None, message = msg, data = d,
      fieldErrors = None, details = None, setCookie = None\<rparr>"

definition authRequired :: response where
  "authRequired = failure 401 ''Authentication required''"

section \<open>Request bodies\<close>

text \<open>
  A JSON value where a route expects a string: the string, or something else, of which
  only its truthiness matters (\<^verbatim>\<open>!email\<close>). A field that is absent is \<open>None\<close>.
  \<^verbatim>\<open>await request.json()\<close> gives a body that is unparsable (it throws), \<^verbatim>\<open>null\<close>,
  another value that is not a plain object (a number, a string, a boolean, an array:
  the schemas refuse it, and the property reads of the handlers give
  \<^verbatim>\<open>undefined\<close>), or an object.
\<close>

datatype jv = JStr string | JOther bool

datatype 'a body = InvalidJson | JsonNull | NonObject | Object 'a

record task_body =
  b_title :: "jv option"
  b_description :: "jv option"
  b_priority :: "jv option"
  b_category :: "jv option"
  b_dueDate :: "jv option"
  b_status :: "jv option"

section \<open>Validation schemas (lib/validations)\<close>

text \<open>
  A field's schema maps the string to the parsed value, \<open>None\<close> when it raises an issue.
  \<open>required\<close> is a schema as it stands (a missing or non-string value is an issue),
  \<open>optional\<close> is \<^verbatim>\<open>.optional()\<close> or \<^verbatim>\<open>.partial()\<close>: \<open>Some None\<close> for \<^verbatim>\<open>undefined\<close>.
\<close>

definition required :: "(string \<Rightarrow> 'a option) \<Rightarrow> jv option \<Rightarrow> 'a option" where
  "required f v = (case v of Some (JStr s) \<Rightarrow> f s | _ \<Rightarrow> None)"

definition optional :: "(string \<Rightarrow> 'a option) \<Rightarrow> jv option \<Rightarrow> 'a option option" where
  "optional f v =
     (case v of
        None \<Rightarrow> Some None
      | Some (JStr s) \<Rightarrow> map_option Some (f s)
      | Some (JOther b) \<Rightarrow> None)"

text \<open>\<^verbatim>\<open>z.string().min(1, ...).max(200, ...).trim()\<close>: the checks run on the string as
  sent, then it is trimmed.\<close>

definition zTitle :: "string \<Rightarrow> string option" where
  "zTitle s = (if 1 \<le> length s \<and> length s \<le> 200 then Some (trim s) else None)"

text \<open>\<^verbatim>\<open>z.string().max(1000, ...).trim().optional().or(z.literal(''))\<close>\<close>

definition zDescription :: "string \<Rightarrow> string option" where
  "zDescription s =
     (if length s \<le> 1000 then Some (trim s) else if s = [] then Some [] else None)"

text \<open>
  \<^verbatim>\<open>
  .refine((date) => {
    if (!date) return true;
    const dueDate = new Date(date);
    const today = new Date();
    today.setHours(0, 0, 0, 0);
    return dueDate >= today;
  }, 'Due date cannot be in the past')
  \<close>
  An invalid date compares false.
\<close>

definition zDueDate :: "env \<Rightarrow> string \<Rightarrow> string option" where
  "zDueDate e s =
     (if s = [] then Some s
      else (case parseDate e s of
              None \<Rightarrow> None
            | Some d \<Rightarrow> if today e \<le> d then Some s else None))"

record CreateTaskInput =
  c_title :: string
  c_description :: "string option"
  c_priority :: TaskPriority
  c_category :: TaskCategory
  c_dueDate :: "string option"

text \<open>The names of the fields with an issue, in the schema's order.\<close>

definition issue :: "string \<Rightarrow> 'a option \<Rightarrow> string list" where
  "issue path r = (case r of None \<Rightarrow> [path] | Some v \<Rightarrow> [])"

text \<open>\<^verbatim>\<open>CreateTaskSchema.safeParse(body)\<close>: keys the schema does not name (\<open>status\<close>
  among them) are dropped.\<close>

definition CreateTaskSchema :: "env \<Rightarrow> task_body \<Rightarrow> string list + CreateTaskInput" where
  "CreateTaskSchema e b =
     (let t = required zTitle (b_title b);
          d = optional zDescription (b_description b);
          p = required parsePriority (b_priority b);
          c = required parseCategory (b_category b);
          dd = optional (zDueDate e) (b_dueDate b)
      in (case (t, d, p, c, dd) of
            (Some t', Some d', Some p', Some c', Some dd') \<Rightarrow>
              Inr \<lparr>c_title = t', c_description = d', c_priority = p', c_category = c',
                   c_dueDate = dd'\<rparr>
          | _ \<Rightarrow>
              Inl (issue ''title'' t @ issue ''description'' d @ issue ''priority'' p
                   @ issue ''category'' c @ issue ''dueDate'' dd)))"

record UpdateTaskInput =
  u_title :: "string option"
  u_description :: "string option"
  u_priority :: "TaskPriority option"
  u_category :: "TaskCategory option"
  u_dueDate :: "string option"
  u_status :: "TaskStatus option"

text \<open>\<^verbatim>\<open>UpdateTaskSchema = CreateTaskSchema.extend({status: ... .optional()}).partial()\<close>\<close>

definition UpdateTaskSchema :: "env \<Rightarrow> task_body \<Rightarrow> string list + UpdateTaskInput" where
  "UpdateTaskSchema e b =
     (let t = optional zTitle (b_title b);
          d = optional zDescription (b_description b);
          p = optional parsePriority (b_priority b);
          c = optional parseCategory (b_category b);
          dd = optional (zDueDate e) (b_dueDate b);
          s = optional parseStatus (b_status b)
      in (case (t, d, p, c, dd, s) of
            (Some t', Some d', Some p', Some c', Some dd', Some s') \<Rightarrow>
              Inr \<lparr>u_title = t', u_description = d', u_priority = p', u_category = c',
                   u_dueDate = dd', u_status = s'\<rparr>
          | _ \<Rightarrow>
              Inl (issue ''title'' t @ issue ''description'' d @ issue ''priority'' p
                   @ issue ''category'' c @ issue ''dueDate'' dd @ issue ''status'' s)))"

text \<open>\<^verbatim>\<open>TaskIdSchema\<close>: \<^verbatim>\<open>z.string().min(1, ...)\<close> on the route parameter \<open>id\<close> (here \<open>tid\<close>).\<close>

definition TaskIdSchema :: "string \<Rightarrow> bool" where
  "TaskIdSchema tid = (1 \<le> length tid)"

text \<open>The query string: \<^verbatim>\<open>url.searchParams.get(k) || undefined\<close>, then
  \<^verbatim>\<open>TaskQuerySchema\<close>, three optional enums.\<close>

record task_query =
  q_status :: "string option"
  q_priority :: "string option"
  q_category :: "string option"

definition orUndefined :: "string option \<Rightarrow> jv option" where
  "orUndefined v = (case v of None \<Rightarrow> None | Some s \<Rightarrow> if s = [] then None else Some (JStr s))"

record TaskQueryInput =
  f_status :: "TaskStatus option"
  f_priority :: "TaskPriority option"
  f_category :: "TaskCategory option"

definition TaskQuerySchema :: "task_query \<Rightarrow> string list + TaskQueryInput" where
  "TaskQuerySchema q =
     (let s = optional parseStatus (orUndefined (q_status q));
          p = optional parsePriority (orUndefined (q_priority q));
          c = optional parseCategory (orUndefined (q_category q))
      in (case (s, p, c) of
            (Some s', Some p', Some c') \<Rightarrow>
              Inr \<lparr>f_status = s', f_priority = p', f_category = c'\<rparr>
          | _ \<Rightarrow> Inl (issue ''status'' s @ issue ''priority'' p @ issue ''category'' c)))"

definition validationFailed :: "string \<Rightarrow> string list \<Rightarrow> response" where
  "validationFailed msg errs = (failure 400 msg)\<lparr>fieldErrors := Some errs\<rparr>"

text \<open>The \<^verbatim>\<open>catch\<close> branch for \<^verbatim>\<open>error.name === 'ValidationError'\<close>.\<close>

definition mongooseValidationFailed :: "string list \<Rightarrow> response" where
  "mongooseValidationFailed errs = (failure 400 ''Validation failed'')\<lparr>details := Some errs\<rparr>"

section \<open>The Task model (models/Task)\<close>

text \<open>
  The schema's validators, on values already cast. \<open>title\<close>: \<^verbatim>\<open>required\<close>,
  \<^verbatim>\<open>minlength 1\<close>, \<^verbatim>\<open>maxlength 200\<close>; \<open>description\<close>: \<^verbatim>\<open>maxlength 1000\<close>;
  \<open>dueDate\<close>: \<^verbatim>\<open>!value || value > new Date()\<close>. The enum fields hold enum values by
  their type.
\<close>

definition titleValid :: "string \<Rightarrow> bool" where
  "titleValid s = (s \<noteq> [] \<and> 1 \<le> length s \<and> length s \<le> 200)"

definition descriptionValid :: "string \<Rightarrow> bool" where
  "descriptionValid s = (length s \<le> 1000)"

definition dueDateValid :: "env \<Rightarrow> time option \<Rightarrow> bool" where
  "dueDateValid e v = (case v of None \<Rightarrow> True | Some d \<Rightarrow> now e < d)"

definition invalid :: "string \<Rightarrow> bool \<Rightarrow> string list" where
  "invalid path ok = (if ok then [] else [path])"

text \<open>
  The middleware of the schema, run by \<^verbatim>\<open>save()\<close>:
  \<^verbatim>\<open>
  TaskSchema.pre('save', function (next) {
    if (this.isModified('status')) {
      if (this.status === TaskStatus.COMPLETED && !this.completedAt) {
        this.completedAt = new Date();
      } else if (this.status !== TaskStatus.COMPLETED) {
        this.completedAt = undefined;
      }
    }
    next();
  });
  \<close>
  \<open>statusModified\<close> is \<^verbatim>\<open>this.isModified('status')\<close>.
\<close>

definition preSave :: "env \<Rightarrow> bool \<Rightarrow> Task \<Rightarrow> Task" where
  "preSave e statusModified t =
     (if statusModified then
        (if status t = COMPLETED \<and> completedAt t = None then t\<lparr>completedAt := Some (now e)\<rparr>
         else if status t \<noteq> COMPLETED then t\<lparr>completedAt := None\<rparr>
         else t)
      else t)"

text \<open>
  \<^verbatim>\<open>new Task({title, description: description || undefined, priority, category,
  dueDate: dueDate ? new Date(dueDate) : undefined, userId})\<close> followed by
  \<^verbatim>\<open>newTask.save()\<close>: the setters (\<^verbatim>\<open>trim\<close>) and the defaults (\<open>status\<close> pending,
  \<open>completedAt\<close> null, the timestamps) apply, an invalid date or user id is a cast
  failure reported by validation, then the validators run, then the middleware, then
  the document is inserted. The status of the new document comes from the default, a
  path Mongoose does not count as modified, so \<^verbatim>\<open>isModified('status')\<close> is false;
  were it true, the middleware would leave this document (pending, no \<open>completedAt\<close>)
  as it is all the same. The result is the failing paths or the saved document and the
  collection.
\<close>

definition Task_create ::
  "env \<Rightarrow> oid \<Rightarrow> string \<Rightarrow> CreateTaskInput \<Rightarrow> db \<Rightarrow> string list + (Task \<times> db)" where
  "Task_create e newId userIdStr input d =
     (let ttl = trim (c_title input);
          desc = (case c_description input of
                    None \<Rightarrow> None
                  | Some s \<Rightarrow> if s = [] then None else Some (trim s));
          due = (case c_dueDate input of
                   None \<Rightarrow> Some None
                 | Some s \<Rightarrow> if s = [] then Some None else map_option Some (parseDate e s));
          uid = castObjectId e userIdStr;
          errs = invalid ''title'' (titleValid ttl)
                 @ invalid ''description'' (case desc of None \<Rightarrow> True | Some s \<Rightarrow> descriptionValid s)
                 @ invalid ''dueDate'' (case due of None \<Rightarrow> False | Some v \<Rightarrow> dueDateValid e v)
                 @ issue ''userId'' uid
      in (case (due, uid) of
            (Some due', Some uid') \<Rightarrow>
              if errs = [] then
                (let t = preSave e False
                           \<lparr>task_id = newId, title = ttl, description = desc, status = PENDING,
                            priority = c_priority input, category = c_category input,
                            dueDate = due', completedAt = None, userId = uid',
                            createdAt = now e, updatedAt = now e\<rparr>
                 in Inr (t, d\<lparr>tasks := tasks d @ [t]\<rparr>))
              else Inl errs
          | _ \<Rightarrow> Inl errs))"

text \<open>
  The filter \<^verbatim>\<open>{ _id: id, userId }\<close> of the three handlers of
  \<^verbatim>\<open>/api/tasks/[id]\<close>: both strings are cast (\<open>None\<close>: a \<^verbatim>\<open>CastError\<close>), and a
  document matches when both fields are equal to the cast values.
\<close>

definition castFilter :: "env \<Rightarrow> string \<Rightarrow> string \<Rightarrow> (oid \<times> oid) option" where
  "castFilter e tid userIdStr =
     (case castObjectId e tid of
        None \<Rightarrow> None
      | Some i \<Rightarrow> (case castObjectId e userIdStr of None \<Rightarrow> None | Some u \<Rightarrow> Some (i, u)))"

definition ownedBy :: "oid \<times> oid \<Rightarrow> Task \<Rightarrow> bool" where
  "ownedBy f t = (task_id t = fst f \<and> userId t = snd f)"

text \<open>The update document after casting: for each field \<open>None\<close> when the request does
  not set it. An empty \<open>dueDate\<close> string is cast to \<^verbatim>\<open>null\<close>.\<close>

record TaskUpdate =
  set_title :: "string option"
  set_description :: "string option"
  set_priority :: "TaskPriority option"
  set_category :: "TaskCategory option"
  set_dueDate :: "time option option"
  set_status :: "TaskStatus option"

definition castUpdate :: "env \<Rightarrow> UpdateTaskInput \<Rightarrow> TaskUpdate option" where
  "castUpdate e u =
     (let due = (case u_dueDate u of
                   None \<Rightarrow> Some None
                 | Some s \<Rightarrow> if s = [] then Some (Some None)
                            else map_option (\<lambda>d. Some (Some d)) (parseDate e s))
      in (case due of
            None \<Rightarrow> None
          | Some due' \<Rightarrow>
              Some \<lparr>set_title = map_option trim (u_title u),
                    set_description = map_option trim (u_description u),
                    set_priority = u_priority u, set_category = u_category u,
                    set_dueDate = due', set_status = u_status u\<rparr>))"

text \<open>\<^verbatim>\<open>runValidators: true\<close>: the validators of the paths the update sets.\<close>

definition updateValidators :: "env \<Rightarrow> TaskUpdate \<Rightarrow> string list" where
  "updateValidators e u =
     invalid ''title'' (case set_title u of None \<Rightarrow> True | Some s \<Rightarrow> titleValid s)
     @ invalid ''description'' (case set_description u of None \<Rightarrow> True | Some s \<Rightarrow> descriptionValid s)
     @ invalid ''dueDate'' (case set_dueDate u of None \<Rightarrow> True | Some v \<Rightarrow> dueDateValid e v)"

text \<open>What the update writes into the matched document. Only the fields of the update
  and \<open>updatedAt\<close> (\<^verbatim>\<open>timestamps: true\<close>) change; \<^verbatim>\<open>findOneAndUpdate\<close> runs no
  \<^verbatim>\<open>save\<close> middleware, so \<open>preSave\<close> is not applied.\<close>

definition applyUpdate :: "env \<Rightarrow> TaskUpdate \<Rightarrow> Task \<Rightarrow> Task" where
  "applyUpdate e u t =
     t\<lparr>title := (case set_title u of None \<Rightarrow> title t | Some s \<Rightarrow> s),
       description := (case set_description u of None \<Rightarrow> description t | Some s \<Rightarrow> Some s),
       priority := (case set_priority u of None \<Rightarrow> priority t | Some p \<Rightarrow> p),
       category := (case set_category u of None \<Rightarrow> category t | Some c \<Rightarrow> c),
       dueDate := (case set_dueDate u of None \<Rightarrow> dueDate t | Some v \<Rightarrow> v),
       status := (case set_status u of None \<Rightarrow> status t | Some s \<Rightarrow> s),
       updatedAt := now e\<rparr>"

fun updateFirst :: "('a \<Rightarrow> bool) \<Rightarrow> ('a \<Rightarrow> 'a) \<Rightarrow> 'a list \<Rightarrow> 'a option \<times> 'a list" where
  "updateFirst P f [] = (None, [])"
| "updateFirst P f (x # xs) =
     (if P x then (Some (f x), f x # xs)
      else (case updateFirst P f xs of (r, ys) \<Rightarrow> (r, x # ys)))"

fun removeFirst :: "('a \<Rightarrow> bool) \<Rightarrow> 'a list \<Rightarrow> 'a option \<times> 'a list" where
  "removeFirst P [] = (None, [])"
| "removeFirst P (x # xs) =
     (if P x then (Some x, xs)
      else (case removeFirst P xs of (r, ys) \<Rightarrow> (r, x # ys)))"

datatype mongoose_error = CastError | ValidationError "string list"

text \<open>\<^verbatim>\<open>Task.findOne({ _id: id, userId })\<close>\<close>

definition Task_findOne :: "env \<Rightarrow> string \<Rightarrow> string \<Rightarrow> db \<Rightarrow> mongoose_error + Task option" where
  "Task_findOne e tid userIdStr d =
     (case castFilter e tid userIdStr of
        None \<Rightarrow> Inl CastError
      | Some f \<Rightarrow> Inr (find (ownedBy f) (tasks d)))"

text \<open>\<^verbatim>\<open>Task.findOneAndUpdate({ _id: id, userId }, { ...updateData },
  { new: true, runValidators: true })\<close>: the filter and the update are cast and the
  update validated before the collection is read; the updated document is returned.\<close>

definition Task_findOneAndUpdate ::
  "env \<Rightarrow> string \<Rightarrow> string \<Rightarrow> UpdateTaskInput \<Rightarrow> db \<Rightarrow> mongoose_error + (Task option \<times> db)" where
  "Task_findOneAndUpdate e tid userIdStr updateData d =
     (case castFilter e tid userIdStr of
        None \<Rightarrow> Inl CastError
      | Some f \<Rightarrow>
          (case castUpdate e updateData of
             None \<Rightarrow> Inl CastError
           | Some u \<Rightarrow>
               if updateValidators e u \<noteq> [] then Inl (ValidationError (updateValidators e u))
               else (case updateFirst (ownedBy f) (applyUpdate e u) (tasks d) of
                       (r, ts) \<Rightarrow> Inr (r, d\<lparr>tasks := ts\<rparr>))))"

text \<open>\<^verbatim>\<open>Task.findOneAndDelete({ _id: id, userId })\<close>\<close>

definition Task_findOneAndDelete ::
  "env \<Rightarrow> string \<Rightarrow> string \<Rightarrow> db \<Rightarrow> mongoose_error + (Task option \<times> db)" where
  "Task_findOneAndDelete e tid userIdStr d =
     (case castFilter e tid userIdStr of
        None \<Rightarrow> Inl CastError
      | Some f \<Rightarrow>
          (case removeFirst (ownedBy f) (tasks d) of (r, ts) \<Rightarrow> Inr (r, d\<lparr>tasks := ts\<rparr>)))"

text \<open>
  The filter of the list: \<^verbatim>\<open>{ userId }\<close> and one equality per validated parameter
  that is present (\<^verbatim>\<open>if (validatedParams.status) filter.status = ...\<close>).
\<close>

definition matchesFilter :: "oid \<Rightarrow> TaskQueryInput \<Rightarrow> Task \<Rightarrow> bool" where
  "matchesFilter u q t =
     (userId t = u
      \<and> (case f_status q of None \<Rightarrow> True | Some s \<Rightarrow> status t = s)
      \<and> (case f_priority q of None \<Rightarrow> True | Some p \<Rightarrow> priority t = p)
      \<and> (case f_category q of None \<Rightarrow> True | Some c \<Rightarrow> category t = c))"

text \<open>\<^verbatim>\<open>Task.find(filter).sort({ createdAt: -1 })\<close>; documents created at the same
  millisecond stay in insertion order.\<close>

definition Task_find :: "env \<Rightarrow> string \<Rightarrow> TaskQueryInput \<Rightarrow> db \<Rightarrow> mongoose_error + Task list" where
  "Task_find e userIdStr q d =
     (case castObjectId e userIdStr of
        None \<Rightarrow> Inl CastError
      | Some u \<Rightarrow> Inr (sort_key (\<lambda>t. - createdAt t) (filter (matchesFilter u q) (tasks d))))"

section \<open>Task routes\<close>

text \<open>
  Each handler takes the environment, the request (headers, route parameter, query or
  body) and the collections, and returns the response (and the collections when it
  writes). The database is taken to be reachable.
\<close>

text \<open>\<^verbatim>\<open>GET /api/tasks\<close> (\<^verbatim>\<open>app/api/tasks/route.ts\<close>)\<close>

definition GET_tasks :: "env \<Rightarrow> headers \<Rightarrow> task_query \<Rightarrow> db \<Rightarrow> response" where
  "GET_tasks e h q d =
     (case getUserFromToken e h of
        None \<Rightarrow> authRequired
      | Some userIdStr \<Rightarrow>
          if userIdStr = [] then authRequired
          else (case TaskQuerySchema q of
                  Inl errs \<Rightarrow> validationFailed ''Invalid query parameters'' errs
                | Inr validatedParams \<Rightarrow>
                    (case Task_find e userIdStr validatedParams d of
                       Inl err \<Rightarrow> failure 500 ''Failed to fetch tasks''
                     | Inr ts \<Rightarrow> succeed (TasksData ts) (Some ''Tasks fetched successfully''))))"

text \<open>\<^verbatim>\<open>POST /api/tasks\<close>. The log line reads \<^verbatim>\<open>body.title\<close> before validation, which
  throws on \<^verbatim>\<open>null\<close>; \<open>newId\<close> is the \<^verbatim>\<open>_id\<close> the driver generates.\<close>

definition POST_tasks :: "env \<Rightarrow> oid \<Rightarrow> headers \<Rightarrow> task_body body \<Rightarrow> db \<Rightarrow> response \<times> db" where
  "POST_tasks e newId h b d =
     (case getUserFromToken e h of
        None \<Rightarrow> (authRequired, d)
      | Some userIdStr \<Rightarrow>
          if userIdStr = [] then (authRequired, d)
          else (case b of
                  InvalidJson \<Rightarrow> (failure 500 ''Failed to create task'', d)
                | JsonNull \<Rightarrow> (failure 500 ''Failed to create task'', d)
                | NonObject \<Rightarrow> (validationFailed ''Validation failed'' [[]], d)
                | Object obj \<Rightarrow>
                    (case CreateTaskSchema e obj of
                       Inl errs \<Rightarrow> (validationFailed ''Validation failed'' errs, d)
                     | Inr input \<Rightarrow>
                         (case Task_create e newId userIdStr input d of
                            Inl errs \<Rightarrow> (mongooseValidationFailed errs, d)
                          | Inr (savedTask, d') \<Rightarrow>
                              (succeed (TaskData savedTask) (Some ''Task created successfully''),
                               d')))))"

text \<open>\<^verbatim>\<open>GET /api/tasks/[id]\<close> (\<^verbatim>\<open>app/api/tasks/[id]/route.ts\<close>)\<close>

definition GET_task :: "env \<Rightarrow> headers \<Rightarrow> string \<Rightarrow> db \<Rightarrow> response" where
  "GET_task e h tid d =
     (case getUserFromToken e h of
        None \<Rightarrow> authRequired
      | Some userIdStr \<Rightarrow>
          if userIdStr = [] then authRequired
          else (case Task_findOne e tid userIdStr d of
                  Inl err \<Rightarrow> failure 500 ''Failed to fetch task''
                | Inr None \<Rightarrow> failure 404 ''Task not found''
                | Inr (Some task) \<Rightarrow>
                    succeed (TaskData task) (Some ''Task fetched successfully'')))"

text \<open>\<^verbatim>\<open>PATCH /api/tasks/[id]\<close>\<close>

definition PATCH_task :: "env \<Rightarrow> headers \<Rightarrow> string \<Rightarrow> task_body body \<Rightarrow> db \<Rightarrow> response \<times> db" where
  "PATCH_task e h tid b d =
     (if \<not> TaskIdSchema tid then (failure 400 ''Invalid task ID'', d)
      else (case getUserFromToken e h of
              None \<Rightarrow> (authRequired, d)
            | Some userIdStr \<Rightarrow>
                if userIdStr = [] then (authRequired, d)
                else (case b of
                        InvalidJson \<Rightarrow> (failure 500 ''Failed to update task'', d)
                      | JsonNull \<Rightarrow> (validationFailed ''Validation failed'' [[]], d)
                      | NonObject \<Rightarrow> (validationFailed ''Validation failed'' [[]], d)
                      | Object obj \<Rightarrow>
                          (case UpdateTaskSchema e obj of
                             Inl errs \<Rightarrow> (validationFailed ''Validation failed'' errs, d)
                           | Inr updateData \<Rightarrow>
                               (case Task_findOneAndUpdate e tid userIdStr updateData d of
                                  Inl CastError \<Rightarrow> (failure 500 ''Failed to update task'', d)
                                | Inl (ValidationError errs) \<Rightarrow> (mongooseValidationFailed errs, d)
                                | Inr (None, d') \<Rightarrow> (failure 404 ''Task not found'', d')
                                | Inr (Some updatedTask, d') \<Rightarrow>
                                    (succeed (TaskData updatedTask)
                                       (Some ''Task updated successfully''), d'))))))"

text \<open>\<^verbatim>\<open>DELETE /api/tasks/[id]\<close>\<close>

definition DELETE_task :: "env \<Rightarrow> headers \<Rightarrow> string \<Rightarrow> db \<Rightarrow> response \<times> db" where
  "DELETE_task e h tid d =
     (if \<not> TaskIdSchema tid then (failure 400 ''Invalid task ID'', d)
      else (case getUserFromToken e h of
              None \<Rightarrow> (authRequired, d)
            | Some userIdStr \<Rightarrow>
                if userIdStr = [] then (authRequired, d)
                else (case Task_findOneAndDelete e tid userIdStr d of
                        Inl err \<Rightarrow> (failure 500 ''Failed to delete task'', d)
                      | Inr (None, d') \<Rightarrow> (failure 404 ''Task not found'', d')
                      | Inr (Some deletedTask, d') \<Rightarrow>
                          (succeed (TaskData deletedTask) (Some ''Task deleted successfully''),
                           d'))))"

section \<open>The User model (models/User.ts)\<close>







text \<open>The setters of \<open>email\<close> (\<^verbatim>\<open>lowercase: true, trim: true\<close>) and of \<open>name\<close>
  (\<^verbatim>\<open>trim: true\<close>); Mongoose applies a path's setters to a document's value and to the
  value of a query filter alike.\<close>

definition emailSetter :: "string \<Rightarrow> string" where
  "emailSetter s = toLowerCase (trim s)"

text \<open>\<^verbatim>\<open>User.findOne({ email })\<close>\<close>

definition User_findOne :: "string \<Rightarrow> db \<Rightarrow> User option" where
  "User_findOne emailStr d = find (\<lambda>u. email u = emailSetter emailStr) (users d)"

text \<open>\<^verbatim>\<open>User.findById(id)\<close>\<close>

definition User_findById :: "env \<Rightarrow> string \<Rightarrow> db \<Rightarrow> mongoose_error + User option" where
  "User_findById e idStr d =
     (case castObjectId e idStr of
        None \<Rightarrow> Inl CastError
      | Some i \<Rightarrow> Inr (find (\<lambda>u. user_id u = i) (users d)))"

text \<open>
  \<^verbatim>\<open>new User({name, email, password})\<close> and \<^verbatim>\<open>save()\<close>: setters, validators
  (\<open>name\<close>: required, 2 to 50; \<open>email\<close>: required, the pattern; \<open>password\<close>: required, at
  least 6), then the middleware that hashes the password (it is modified: the document
  is new), then the insertion, which the unique index on \<open>email\<close> refuses (\<open>E11000\<close>)
  when a user holds the same email.
\<close>

datatype save_error = Invalid "string list" | DuplicateKey


text \<open>
  \<^verbatim>\<open>comparePassword\<close>: \<^verbatim>\<open>bcrypt.compare(password, this.password)\<close>, false when it
  throws, as it does on a value that is not a string.
\<close>

definition comparePassword :: "env \<Rightarrow> User \<Rightarrow> jv \<Rightarrow> bool" where
  "comparePassword e u pw =
     (case pw of
        JOther b \<Rightarrow> False
      | JStr p \<Rightarrow> (case bcrypt_compare e p (password u) of None \<Rightarrow> False | Some r \<Rightarrow> r))"

definition toUserResponse :: "User \<Rightarrow> userResponse" where
  "toUserResponse u =
     \<lparr>ur_id = user_id u, ur_name = name u, ur_email = email u, ur_avatar = avatar u,
      ur_createdAt = user_createdAt u\<rparr>"

section \<open>Auth routes\<close>

record login_body =
  l_email :: "jv option"
  l_password :: "jv option"

text \<open>\<^verbatim>\<open>!x\<close> on a field: absent, or a falsy value (the empty string among them).\<close>

definition falsy :: "jv option \<Rightarrow> bool" where
  "falsy v =
     (case v of None \<Rightarrow> True | Some (JStr s) \<Rightarrow> s = [] | Some (JOther truthy) \<Rightarrow> \<not> truthy)"

definition unset :: "string option \<Rightarrow> bool" where
  "unset v = (case v of None \<Rightarrow> True | Some s \<Rightarrow> s = [])"

text \<open>\<^verbatim>\<open>expiresIn: '7d'\<close> and \<^verbatim>\<open>maxAge: 7 * 24 * 60 * 60\<close>, in seconds.\<close>

definition sevenDays :: nat where
  "sevenDays = 7 * 24 * 60 * 60"

text \<open>
  \<^verbatim>\<open>POST /api/auth/login\<close>. Destructuring a \<^verbatim>\<open>null\<close> body throws, and so does
  \<^verbatim>\<open>email.toLowerCase()\<close> on a truthy value that is not a string; both end in the
  \<^verbatim>\<open>catch\<close> (500), as does the unset secret.
\<close>

definition invalidCredentials :: response where
  "invalidCredentials = failure 401 ''Invalid email or password''"

definition loginFailed :: response where
  "loginFailed = failure 500 ''Login failed. Please try again.''"

definition POST_login :: "env \<Rightarrow> login_body body \<Rightarrow> db \<Rightarrow> response" where
  "POST_login e b d =
     (case b of
        InvalidJson \<Rightarrow> loginFailed
      | JsonNull \<Rightarrow> loginFailed
      | NonObject \<Rightarrow> failure 400 ''Email and password are required''
      | Object obj \<Rightarrow>
          if falsy (l_email obj) \<or> falsy (l_password obj)
          then failure 400 ''Email and password are required''
          else (case (l_email obj, l_password obj) of
                  (Some (JStr emailStr), Some pw) \<Rightarrow>
                    (case User_findOne (toLowerCase emailStr) d of
                       None \<Rightarrow> invalidCredentials
                     | Some user \<Rightarrow>
                         if \<not> comparePassword e user pw then invalidCredentials
                         else (case NEXTAUTH_SECRET e of
                                 None \<Rightarrow> loginFailed
                               | Some secret \<Rightarrow>
                                   if secret = [] then loginFailed
                                   else (let token = jwt_sign e (user_id user, email user) secret
                                                       (int sevenDays) (clock e)
                                         in (succeed (LoginData (toUserResponse user) token)
                                               (Some ''Login successful''))
                                            \<lparr>setCookie :=
                                               Some (''auth-token'', token, sevenDays)\<rparr>)))
                | _ \<Rightarrow> loginFailed))"

text \<open>
  \<^verbatim>\<open>GET /api/auth/me\<close>. The \<^verbatim>\<open>catch\<close> tests
  \<^verbatim>\<open>error instanceof jwt.JsonWebTokenError\<close> first, then
  \<^verbatim>\<open>error instanceof jwt.TokenExpiredError\<close>; every other error (the one thrown for
  the unset secret, an error of another class out of \<^verbatim>\<open>jwt.verify\<close>, a failed
  query) falls through to the 500.
\<close>

definition GET_me :: "env \<Rightarrow> headers \<Rightarrow> db \<Rightarrow> response" where
  "GET_me e h d =
     (case extractToken h of
        None \<Rightarrow> failure 401 ''No authentication token provided''
      | Some token \<Rightarrow>
          if token = [] then failure 401 ''No authentication token provided''
          else (case NEXTAUTH_SECRET e of
                  None \<Rightarrow> failure 500 ''Failed to get current user''
                | Some secret \<Rightarrow>
                    if secret = [] then failure 500 ''Failed to get current user''
                    else (case jwt_verify e token secret (clock e) of
                            Inl err \<Rightarrow>
                              if instanceof_JsonWebTokenError err
                              then failure 401 ''Invalid authentication token''
                              else if instanceof_TokenExpiredError err
                              then failure 401 ''Authentication token expired''
                              else failure 500 ''Failed to get current user''
                          | Inr decoded \<Rightarrow>
                              (case User_findById e (jwt_userId decoded) d of
                                 Inl err \<Rightarrow> failure 500 ''Failed to get current user''
                               | Inr None \<Rightarrow> failure 404 ''User not found''
                               | Inr (Some user) \<Rightarrow>
                                   succeed (UserData (toUserResponse user)) None))))"











section \<open>The token issuer and verifier\<close>

text \<open>
  Modelled from the spec: the jsonwebtoken package (\<^verbatim>\<open>jwt.sign\<close>, \<^verbatim>\<open>jwt.verify\<close>),
  which the handlers call and which is not among the sources. The spec (3, Session
  Token; 4.2, Token Issuer/Verifier): the token is a "derived value carrying owning
  user id + email + issued-at + expiry (7 days), signed with a server-held secret";
  \<^verbatim>\<open>issue(userId, email) -> token\<close> "produces a signed, time-boxed credential";
  \<^verbatim>\<open>verify(token) -> {userId, email} | error\<close>, with the error kinds \<^verbatim>\<open>Malformed\<close>,
  \<^verbatim>\<open>SignatureInvalid\<close> and \<^verbatim>\<open>Expired\<close>.

  The spec fixes no format. Here a token is the framed payload followed by the
  signature. A frame is the length of a string in unary, a dot, and the string; the
  payload is the four fields, framed, the two times in decimal with a sign; the
  signature is \<open>mac secret payload\<close> for a keyed hash \<open>mac\<close>, which is a parameter.
  \<open>issueToken\<close> takes what \<^verbatim>\<open>jwt.sign\<close> is given by the login route (the payload
  \<^verbatim>\<open>{userId, email}\<close>, the secret, \<^verbatim>\<open>expiresIn\<close> in seconds) and the clock, and sets
  \<open>iat\<close> to the clock and \<open>exp\<close> to \<open>iat + expiresIn\<close>. \<open>verifyToken\<close> takes the token, the
  secret and the clock: a token that does not parse is \<open>Malformed\<close>; one whose
  signature is not the hash of its payload under the secret is \<open>SignatureInvalid\<close>;
  one whose \<open>exp\<close> the clock has reached is \<open>Expired\<close>; otherwise the payload is
  returned.
\<close>

definition frame :: "string \<Rightarrow> string" where
  "frame s = replicate (length s) CHR ''x'' @ CHR ''.'' # s"

definition unframe :: "string \<Rightarrow> (string \<times> string) option" where
  "unframe t =
     (let n = length (takeWhile (\<lambda>c. c = CHR ''x'') t)
      in (case drop n t of
            [] \<Rightarrow> None
          | c # r \<Rightarrow>
              if c = CHR ''.'' \<and> n \<le> length r then Some (take n r, drop n r) else None))"

definition digitChar :: "nat \<Rightarrow> char" where
  "digitChar d = ''0123456789'' ! (d mod 10)"

definition digitVal :: "char \<Rightarrow> nat" where
  "digitVal c = length (takeWhile (\<lambda>x. x \<noteq> c) ''0123456789'')"

fun encNat :: "nat \<Rightarrow> string" where
  "encNat n = (if n < 10 then [digitChar n] else encNat (n div 10) @ [digitChar (n mod 10)])"

declare encNat.simps [simp del]

definition decNat :: "string \<Rightarrow> nat" where
  "decNat s = foldl (\<lambda>a c. 10 * a + digitVal c) 0 s"

definition encInt :: "int \<Rightarrow> string" where
  "encInt i = (if i < 0 then CHR ''-'' # encNat (nat (- i)) else CHR ''+'' # encNat (nat i))"

definition decInt :: "string \<Rightarrow> int" where
  "decInt s =
     (case s of
        [] \<Rightarrow> 0
      | c # r \<Rightarrow> if c = CHR ''-'' then - int (decNat r) else int (decNat r))"

definition encodePayload :: "JWTPayload \<Rightarrow> string" where
  "encodePayload p =
     frame (jwt_userId p) @ frame (jwt_email p) @ frame (encInt (iat p)) @ frame (encInt (exp p))"

definition decodePayload :: "string \<Rightarrow> JWTPayload option" where
  "decodePayload b =
     (case unframe b of
        None \<Rightarrow> None
      | Some (u, b1) \<Rightarrow>
          (case unframe b1 of
             None \<Rightarrow> None
           | Some (m, b2) \<Rightarrow>
               (case unframe b2 of
                  None \<Rightarrow> None
                | Some (i, b3) \<Rightarrow>
                    (case unframe b3 of
                       None \<Rightarrow> None
                     | Some (x, b4) \<Rightarrow>
                         if b4 = [] \<and> encInt (decInt i) = i \<and> encInt (decInt x) = x
                         then Some \<lparr>jwt_userId = u, jwt_email = m, iat = decInt i,
                                    exp = decInt x\<rparr>
                         else None))))"

text \<open>Modelled from the spec: \<^verbatim>\<open>issue(userId, email) -> token\<close>, the call
  \<^verbatim>\<open>jwt.sign(payload, secret, { expiresIn })\<close>.\<close>

definition issueToken ::
  "(string \<Rightarrow> string \<Rightarrow> string) \<Rightarrow> string \<times> string \<Rightarrow> string \<Rightarrow> int \<Rightarrow> int \<Rightarrow> string" where
  "issueToken mac p secret expiresIn c =
     (let b = encodePayload \<lparr>jwt_userId = fst p, jwt_email = snd p, iat = c,
                             exp = c + expiresIn\<rparr>
      in frame b @ mac secret b)"

text \<open>Modelled from the spec: \<^verbatim>\<open>verify(token) -> {userId, email} | error\<close>, the call
  \<^verbatim>\<open>jwt.verify(token, secret)\<close>.\<close>

definition verifyToken ::
  "(string \<Rightarrow> string \<Rightarrow> string) \<Rightarrow> string \<Rightarrow> string \<Rightarrow> int \<Rightarrow> jwt_error + JWTPayload" where
  "verifyToken mac token secret c =
     (case unframe token of
        None \<Rightarrow> Inl Malformed
      | Some (b, sig) \<Rightarrow>
          (case decodePayload b of
             None \<Rightarrow> Inl Malformed
           | Some p \<Rightarrow>
               if sig \<noteq> mac secret b then Inl SignatureInvalid
               else if exp p \<le> c then Inl Expired
               else Inr p))"

section \<open>A concrete environment\<close>

text \<open>
  One instance of the libraries, for the examples below: a single token \<open>tok\<close>, issued
  at second 1000 for the user \<open>u1\<close>, that the secret \<open>s3cret\<close> verifies until it expires;
  a hash that prefixes the password; one date string; every string is an
  \<^verbatim>\<open>ObjectId\<close>.
\<close>

definition demoPayload :: JWTPayload where
  "demoPayload =
     \<lparr>jwt_userId = ''u1'', jwt_email = ''ann@ex.co'', iat = 1000, exp = 1000 + 604800\<rparr>"

definition demoEnv :: env where
  "demoEnv =
     \<lparr>NEXTAUTH_SECRET = Some ''s3cret'', now = 1000000, today = 0,
      jwt_sign = (\<lambda>p secret ttl c. ''tok''),
      jwt_verify = (\<lambda>token secret c.
         if token \<noteq> ''tok'' then Inl Malformed
         else if secret \<noteq> ''s3cret'' then Inl SignatureInvalid
         else if 1000 + 604800 \<le> c then Inl Expired
         else Inr demoPayload),
      bcrypt_hash = (\<lambda>p. CHR ''#'' # p),
      bcrypt_compare = (\<lambda>p h. Some (h = CHR ''#'' # p)),
      parseDate = (\<lambda>s. if s = ''2030-01-01'' then Some 1893456000000 else None),
      castObjectId = Some,
      zod_email = (\<lambda>s. CHR ''@'' \<in> set s)\<rparr>"

definition bearer :: headers where
  "bearer = \<lparr>authorization = Some ''Bearer tok'', cookie = None\<rparr>"

definition noHeaders :: headers where
  "noHeaders = \<lparr>authorization = None, cookie = None\<rparr>"

definition noQuery :: task_query where
  "noQuery = \<lparr>q_status = None, q_priority = None, q_category = None\<rparr>"

definition emptyDb :: db where
  "emptyDb = \<lparr>users = [], tasks = []\<rparr>"

definition milk :: Task where
  "milk =
     \<lparr>task_id = ''t1'', title = ''Buy milk'', description = None, status = PENDING,
      priority = LOW, category = PERSONAL, dueDate = None, completedAt = None,
      userId = ''u1'', createdAt = 5, updatedAt = 5\<rparr>"

definition ann :: User where
  "ann =
     \<lparr>user_id = ''u1'', name = ''Ann'', email = ''ann@ex.co'', password = ''#secret1'',
      avatar = None, user_createdAt = 1, user_updatedAt = 1\<rparr>"

definition demoDb :: db where
  "demoDb = \<lparr>users = [ann], tasks = [milk]\<rparr>"

text \<open>The same environment with the secret unset, with another secret, and a long
  time later.\<close>

definition noSecretEnv :: env where
  "noSecretEnv = demoEnv\<lparr>NEXTAUTH_SECRET := None\<rparr>"

definition otherSecretEnv :: env where
  "otherSecretEnv = demoEnv\<lparr>NEXTAUTH_SECRET := Some ''other''\<rparr>"

definition laterEnv :: env where
  "laterEnv = demoEnv\<lparr>now := 1000000000\<rparr>"

definition junkBearer :: headers where
  "junkBearer = \<lparr>authorization = Some ''Bearer junk'', cookie = None\<rparr>"

definition noFields :: task_body where
  "noFields =
     \<lparr>b_title = None, b_description = None, b_priority = None, b_category = None,
      b_dueDate = None, b_status = None\<rparr>"

text \<open>A body for \<^verbatim>\<open>POST /api/tasks\<close> that also carries a status, and the task it
  creates.\<close>

definition milkBody :: task_body where
  "milkBody =
     \<lparr>b_title = Some (JStr ''Buy milk''), b_description = None, b_priority = Some (JStr ''low''),
      b_category = Some (JStr ''personal''), b_dueDate = None,
      b_status = Some (JStr ''completed'')\<rparr>"

definition milk2 :: Task where
  "milk2 = milk\<lparr>task_id := ''t2'', createdAt := 1000000, updatedAt := 1000000\<rparr>"

text \<open>A body for \<^verbatim>\<open>PATCH /api/tasks/t1\<close> that completes the task, and the task as the
  update leaves it.\<close>

definition completeBody :: task_body where
  "completeBody = noFields\<lparr>b_status := Some (JStr ''completed'')\<rparr>"

definition milkDone :: Task where
  "milkDone = milk\<lparr>status := COMPLETED, updatedAt := 1000000\<rparr>"

text \<open>A task of another user, and a collection that holds it.\<close>

definition bobTask :: Task where
  "bobTask = milk\<lparr>task_id := ''t9'', title := ''Pay rent'', userId := ''u2''\<rparr>"

definition demoDb2 :: db where
  "demoDb2 = \<lparr>users = [ann], tasks = [milk, bobTask]\<rparr>"



text \<open>A collection with three tasks of \<open>u1\<close> and one of \<open>u2\<close>, and a query for the
  pending ones.\<close>

definition milkLater :: Task where
  "milkLater = milk\<lparr>task_id := ''t3'', title := ''Buy more milk'', createdAt := 9, updatedAt := 9\<rparr>"

definition doneTask :: Task where
  "doneTask =
     milk\<lparr>task_id := ''t4'', title := ''Call home'', status := COMPLETED, completedAt := Some 8,
          createdAt := 7, updatedAt := 8\<rparr>"

definition demoDb3 :: db where
  "demoDb3 = \<lparr>users = [ann], tasks = [milk, bobTask, milkLater, doneTask]\<rparr>"

definition pendingQuery :: task_query where
  "pendingQuery = \<lparr>q_status = Some ''pending'', q_priority = None, q_category = Some []\<rparr>"

definition pendingFilter :: TaskQueryInput where
  "pendingFilter = \<lparr>f_status = Some PENDING, f_priority = None, f_category = None\<rparr>"



text \<open>
  A token of three parts whose header is \<^verbatim>\<open>{"alg":"HS256","typ":"JWT"}\<close> and whose
  payload is the text \<^verbatim>\<open>not json\<close> (both base64url). jsonwebtoken's \<^verbatim>\<open>verify\<close>
  rethrows what decoding throws, and decoding parses the payload of a token with the
  header \<^verbatim>\<open>typ: JWT\<close> by an unguarded \<^verbatim>\<open>JSON.parse\<close>: on this token
  \<^verbatim>\<open>jwt.verify\<close> throws a \<^verbatim>\<open>SyntaxError\<close>. The environment below is \<open>demoEnv\<close> with
  that outcome for that token.
\<close>

definition brokenPayloadToken :: string where
  "brokenPayloadToken = ''eyJhbGciOiJIUzI1NiIsInR5cCI6IkpXVCJ9.bm90IGpzb24.x''"

definition brokenBearer :: headers where
  "brokenBearer = \<lparr>authorization = Some (''Bearer '' @ brokenPayloadToken), cookie = None\<rparr>"

definition syntaxErrorEnv :: env where
  "syntaxErrorEnv =
     demoEnv\<lparr>jwt_verify := (\<lambda>token secret c.
        if token = brokenPayloadToken then Inl (OtherError ''SyntaxError'')
        else jwt_verify demoEnv token secret c)\<rparr>"

















text \<open>
  The environment \<open>demoEnv\<close> with the issuer and the verifier above, under a small
  keyed checksum, and the token it issues to \<open>ann\<close> at second 1000.
\<close>

definition checksum :: "string \<Rightarrow> nat" where
  "checksum s = foldl (\<lambda>a c. (31 * a + of_char c) mod 65521) 7 s"

definition demoMac :: "string \<Rightarrow> string \<Rightarrow> string" where
  "demoMac secret b = encNat (checksum (secret @ CHR ''.'' # b))"

definition tokenEnv :: env where
  "tokenEnv = demoEnv\<lparr>jwt_sign := issueToken demoMac, jwt_verify := verifyToken demoMac\<rparr>"

definition tokenLaterEnv :: env where
  "tokenLaterEnv = tokenEnv\<lparr>now := 1000000000\<rparr>"

definition annPayload :: string where
  "annPayload = ''xx.u1xxxxxxxxx.ann@ex.coxxxxx.+1000xxxxxxx.+605800''"

definition annToken :: string where
  "annToken =
     ''xxxxxxxxxxxxxxxxxxxxxxxxxxxxxxxxxxxxxxxxxxxxxxxxxx.xx.u1xxxxxxxxx.ann@ex.coxxxxx.+1000xxxxxxx.+60580029453''"

definition annBearer :: headers where
  "annBearer = \<lparr>authorization = Some (''Bearer '' @ annToken), cookie = None\<rparr>"

section \<open>Lemmas on strings and the extractor\<close>

lemma splitFrom_no_sep: "sep \<notin> set s \<Longrightarrow> splitFrom sep cur s = [rev cur @ s]"
  by (induction s arbitrary: cur) auto

lemma split_no_sep: "sep \<notin> set s \<Longrightarrow> split sep s = [s]"
  by (simp add: split_def splitFrom_no_sep)

lemma trim_keeps_prefix:
  assumes "p \<noteq> []" "\<not> isWhiteSpace (hd p)" "\<not> isWhiteSpace (last p)"
  shows "startsWith (trim (p @ t)) p"
proof -
  have a: "dropWhile isWhiteSpace (p @ t) = p @ t"
    using assms by (cases p) auto
  have b: "dropWhile isWhiteSpace (rev p) = rev p"
    using assms by (cases "rev p") (auto simp: last_rev hd_rev)
  have c: "trim (p @ t) = rev (dropWhile isWhiteSpace (rev t @ rev p))"
    by (simp add: trim_def a)
  show ?thesis
  proof (cases "\<forall>x\<in>set (rev t). isWhiteSpace x")
    case True
    then have "dropWhile isWhiteSpace (rev t @ rev p) = rev p"
      using b by (simp add: dropWhile_append)
    then show ?thesis
      by (simp add: c startsWith_def)
  next
    case False
    then have "dropWhile isWhiteSpace (rev t @ rev p) = dropWhile isWhiteSpace (rev t) @ rev p"
      by (auto simp: dropWhile_append)
    then show ?thesis
      by (simp add: c startsWith_def)
  qed
qed

lemma cookie_single:
  assumes "CHR ''='' \<notin> set tok" "CHR '';'' \<notin> set tok"
  shows "cookieToken (''auth-token='' @ tok) = Some tok"
proof -
  define c where "c = ''auth-token='' @ tok"
  have s1: "split CHR '';'' c = [c]"
    unfolding c_def using assms by (intro split_no_sep) auto
  have s2: "split CHR ''='' c = [''auth-token'', tok]"
    unfolding c_def using assms by (simp add: split_def splitFrom_no_sep)
  have s3: "startsWith (trim c) ''auth-token=''"
    unfolding c_def by (rule trim_keeps_prefix) (simp_all add: isWhiteSpace_def)
  have "cookieToken c = Some tok"
    by (simp add: cookieToken_def s1 s2 s3)
  then show ?thesis
    by (simp only: c_def)
qed


lemma no_token_no_user: "extractToken h = None \<Longrightarrow> getUserFromToken e h = None"
  by (simp add: getUserFromToken_def)

section \<open>The session extractor (C7)\<close>

text \<open>
  C7. The extractor looks first at the \<open>Authorization\<close> header: a value that starts with
  \<open>Bearer \<close> gives the token (what follows the seven characters), whatever the cookies
  hold. Only when the header is absent or of another form are the cookies read: the
  token is what the first cookie whose trimmed text starts with \<open>auth-token=\<close> holds
  between its first and second \<open>=\<close>; for a header that is just that cookie it is the
  cookie's value. With no such cookie, or neither header, there is no token, and then
  every endpoint answers 401 (not 500), the collections unchanged.
\<close>

theorem extractor_header_then_cookie:
  "(startsWith a ''Bearer '' \<longrightarrow>
      extractToken \<lparr>authorization = Some a, cookie = ck\<rparr> = Some (drop 7 a))
   \<and> (\<not> startsWith a' ''Bearer '' \<longrightarrow>
      extractToken \<lparr>authorization = Some a', cookie = ck\<rparr>
        = extractToken \<lparr>authorization = None, cookie = ck\<rparr>)
   \<and> (find (\<lambda>c. startsWith (trim c) ''auth-token='') (split CHR '';'' c) = Some authCookie \<longrightarrow>
      extractToken \<lparr>authorization = None, cookie = Some c\<rparr>
        = nth_opt (split CHR ''='' authCookie) 1)
   \<and> (CHR ''='' \<notin> set tok \<and> CHR '';'' \<notin> set tok \<longrightarrow>
      extractToken \<lparr>authorization = None, cookie = Some (''auth-token='' @ tok)\<rparr> = Some tok)
   \<and> (find (\<lambda>c. startsWith (trim c) ''auth-token='') (split CHR '';'' c') = None \<longrightarrow>
      extractToken \<lparr>authorization = None, cookie = Some c'\<rparr> = None)
   \<and> extractToken \<lparr>authorization = None, cookie = None\<rparr> = None
   \<and> (extractToken h = None \<and> tid \<noteq> [] \<longrightarrow>
      GET_tasks e h q d = authRequired
      \<and> POST_tasks e newId h b d = (authRequired, d)
      \<and> GET_task e h tid d = authRequired
      \<and> PATCH_task e h tid b d = (authRequired, d)
      \<and> DELETE_task e h tid d = (authRequired, d)
      \<and> GET_me e h d = failure 401 ''No authentication token provided''
      \<and> http_status authRequired = 401)"
proof (intro conjI impI)
  show "extractToken \<lparr>authorization = Some a, cookie = ck\<rparr> = Some (drop 7 a)"
    if "startsWith a ''Bearer ''"
    using that by (auto simp: extractToken_def startsWith_def)
  show "extractToken \<lparr>authorization = Some a', cookie = ck\<rparr>
        = extractToken \<lparr>authorization = None, cookie = ck\<rparr>"
    if "\<not> startsWith a' ''Bearer ''"
    using that by (simp add: extractToken_def)
  show "extractToken \<lparr>authorization = None, cookie = Some c\<rparr>
        = nth_opt (split CHR ''='' authCookie) 1"
    if "find (\<lambda>c. startsWith (trim c) ''auth-token='') (split CHR '';'' c) = Some authCookie"
  proof -
    have "c \<noteq> []"
      using that by (auto simp: split_def startsWith_def trim_def)
    then show ?thesis
      using that by (simp add: extractToken_def tokenFromCookies_def cookieToken_def)
  qed
  show "extractToken \<lparr>authorization = None, cookie = Some (''auth-token='' @ tok)\<rparr> = Some tok"
    if "CHR ''='' \<notin> set tok \<and> CHR '';'' \<notin> set tok"
    using that cookie_single [of tok] by (simp add: extractToken_def tokenFromCookies_def)
  show "extractToken \<lparr>authorization = None, cookie = Some c'\<rparr> = None"
    if "find (\<lambda>c. startsWith (trim c) ''auth-token='') (split CHR '';'' c') = None"
    using that by (simp add: extractToken_def tokenFromCookies_def cookieToken_def)
  show "extractToken \<lparr>authorization = None, cookie = None\<rparr> = None"
    by (simp add: extractToken_def tokenFromCookies_def)
next
  assume h: "extractToken h = None \<and> tid \<noteq> []"
  then have u: "getUserFromToken e h = None"
    by (simp add: no_token_no_user)
  show "GET_tasks e h q d = authRequired" by (simp add: GET_tasks_def u)
  show "POST_tasks e newId h b d = (authRequired, d)" by (simp add: POST_tasks_def u)
  show "GET_task e h tid d = authRequired" by (simp add: GET_task_def u)
  show "PATCH_task e h tid b d = (authRequired, d)"
    using h by (simp add: PATCH_task_def u TaskIdSchema_def Suc_le_eq)
  show "DELETE_task e h tid d = (authRequired, d)"
    using h by (simp add: DELETE_task_def u TaskIdSchema_def Suc_le_eq)
  show "GET_me e h d = failure 401 ''No authentication token provided''"
    using h by (simp add: GET_me_def)
  show "http_status authRequired = 401"
    by (simp add: authRequired_def failure_def)
qed


theorem extractor_header_then_cookie_witness:
  "extractToken \<lparr>authorization = Some ''Bearer abc'', cookie = Some ''x=1; auth-token=zzz''\<rparr>
     = Some ''abc''
   \<and> extractToken \<lparr>authorization = Some ''Basic abc'', cookie = Some ''x=1; auth-token=zzz''\<rparr>
     = extractToken \<lparr>authorization = None, cookie = Some ''x=1; auth-token=zzz''\<rparr>
   \<and> extractToken \<lparr>authorization = None, cookie = Some ''x=1; auth-token=zzz''\<rparr>
     = Some ''zzz''
   \<and> extractToken \<lparr>authorization = None, cookie = Some ''auth-token=tok''\<rparr> = Some ''tok''
   \<and> extractToken \<lparr>authorization = None, cookie = Some ''x=1; y=2''\<rparr> = None
   \<and> extractToken noHeaders = None
   \<and> GET_tasks demoEnv noHeaders noQuery emptyDb = authRequired
   \<and> POST_tasks demoEnv ''t2'' noHeaders (Object noFields) emptyDb = (authRequired, emptyDb)
   \<and> GET_task demoEnv noHeaders ''t1'' emptyDb = authRequired
   \<and> PATCH_task demoEnv noHeaders ''t1'' (Object noFields) emptyDb = (authRequired, emptyDb)
   \<and> DELETE_task demoEnv noHeaders ''t1'' emptyDb = (authRequired, emptyDb)
   \<and> GET_me demoEnv noHeaders emptyDb = failure 401 ''No authentication token provided''
   \<and> http_status authRequired = 401"
  using extractor_header_then_cookie
    [where a = "''Bearer abc''" and ck = "Some ''x=1; auth-token=zzz''" and a' = "''Basic abc''"
       and c = "''x=1; auth-token=zzz''" and authCookie = "'' auth-token=zzz''"
       and tok = "''tok''" and c' = "''x=1; y=2''" and h = noHeaders and tid = "''t1''"
       and e = demoEnv and q = noQuery and d = emptyDb and newId = "''t2''"
       and b = "Object noFields"]
  by (simp add: startsWith_def split_def trim_def isWhiteSpace_def noHeaders_def)

section \<open>Token verification failures (C3)\<close>

lemma verify_error_no_user:
  assumes "extractToken h = Some token" "token \<noteq> []" "NEXTAUTH_SECRET e = Some secret"
    "secret \<noteq> []" "jwt_verify e token secret (clock e) = Inl err"
  shows "getUserFromToken e h = None"
  using assms by (simp add: getUserFromToken_def)

lemma TaskIdSchema_nonempty: "tid \<noteq> [] \<Longrightarrow> TaskIdSchema tid"
  by (cases tid) (simp_all add: TaskIdSchema_def)

lemma unauthenticated_everywhere:
  assumes "getUserFromToken e h = None" "tid \<noteq> []"
  shows "GET_tasks e h q d = authRequired"
    and "POST_tasks e newId h b d = (authRequired, d)"
    and "GET_task e h tid d = authRequired"
    and "PATCH_task e h tid b d = (authRequired, d)"
    and "DELETE_task e h tid d = (authRequired, d)"
  using assms
  by (simp_all add: GET_tasks_def POST_tasks_def GET_task_def PATCH_task_def DELETE_task_def
      TaskIdSchema_nonempty)

text \<open>
  What holds. On the five task endpoints every error out of \<^verbatim>\<open>jwt.verify\<close>, of
  whatever class, is answered 401 \<open>Authentication required\<close>: \<^verbatim>\<open>getUserFromToken\<close>
  catches everything. \<^verbatim>\<open>GET /api/auth/me\<close> answers the one response 401
  \<open>Invalid authentication token\<close> to every error that is an instance of
  \<^verbatim>\<open>JsonWebTokenError\<close> (the branch for \<^verbatim>\<open>TokenExpiredError\<close> comes after the test
  for its superclass and is never taken), and 500 to an error of another class.
\<close>

lemma task_endpoints_any_verify_error:
  assumes "extractToken h = Some token" and "token \<noteq> []"
    and "NEXTAUTH_SECRET e = Some secret" and "secret \<noteq> []"
    and "jwt_verify e token secret (clock e) = Inl err"
    and "tid \<noteq> []"
  shows "GET_tasks e h q d = authRequired
       \<and> POST_tasks e newId h b d = (authRequired, d)
       \<and> GET_task e h tid d = authRequired
       \<and> PATCH_task e h tid b d = (authRequired, d)
       \<and> DELETE_task e h tid d = (authRequired, d)"
  using unauthenticated_everywhere [OF verify_error_no_user [OF assms(1-5)] assms(6)]
  by simp

lemma me_verify_error:
  assumes "extractToken h = Some token" and "token \<noteq> []"
    and "NEXTAUTH_SECRET e = Some secret" and "secret \<noteq> []"
    and "jwt_verify e token secret (clock e) = Inl err"
  shows "GET_me e h d =
           (if instanceof_JsonWebTokenError err then failure 401 ''Invalid authentication token''
            else failure 500 ''Failed to get current user'')"
  using assms by (cases err) (simp_all add: GET_me_def)

lemma broken_token: "extractToken brokenBearer = Some brokenPayloadToken"
  by (simp add: brokenBearer_def extractToken_def startsWith_def)

lemma broken_verify:
  "jwt_verify syntaxErrorEnv brokenPayloadToken ''s3cret'' (clock syntaxErrorEnv)
     = Inl (OtherError ''SyntaxError'')"
  by (simp add: syntaxErrorEnv_def)

text \<open>
  C3 fails on \<^verbatim>\<open>GET /api/auth/me\<close>. The request carries the malformed token above, on
  which \<^verbatim>\<open>jwt.verify\<close> throws a \<^verbatim>\<open>SyntaxError\<close>: the handler's \<^verbatim>\<open>catch\<close> finds it
  an instance of neither JWT error class and answers 500
  \<open>Failed to get current user\<close>, while the same request to \<^verbatim>\<open>GET /api/tasks\<close> is
  answered 401, as is a token that is malformed otherwise on \<^verbatim>\<open>GET /api/auth/me\<close>.
\<close>

theorem me_answers_500_to_broken_payload:
  "extractToken brokenBearer = Some brokenPayloadToken
   \<and> jwt_verify syntaxErrorEnv brokenPayloadToken ''s3cret'' (clock syntaxErrorEnv)
       = Inl (OtherError ''SyntaxError'')
   \<and> GET_me syntaxErrorEnv brokenBearer demoDb = failure 500 ''Failed to get current user''
   \<and> http_status (GET_me syntaxErrorEnv brokenBearer demoDb) = 500
   \<and> GET_tasks syntaxErrorEnv brokenBearer noQuery demoDb = authRequired
   \<and> GET_me syntaxErrorEnv junkBearer demoDb = failure 401 ''Invalid authentication token''"
proof -
  have s: "NEXTAUTH_SECRET syntaxErrorEnv = Some ''s3cret''"
    by (simp add: syntaxErrorEnv_def demoEnv_def)
  have me: "GET_me syntaxErrorEnv brokenBearer demoDb = failure 500 ''Failed to get current user''"
    using me_verify_error [OF broken_token _ s _ broken_verify]
    by (simp add: brokenPayloadToken_def)
  have tasks: "GET_tasks syntaxErrorEnv brokenBearer noQuery demoDb = authRequired"
    using task_endpoints_any_verify_error [OF broken_token _ s _ broken_verify, of "''t1''"]
    by (simp add: brokenPayloadToken_def)
  have j: "extractToken junkBearer = Some ''junk''"
    by (simp add: junkBearer_def extractToken_def startsWith_def)
  have v: "jwt_verify syntaxErrorEnv ''junk'' ''s3cret'' (clock syntaxErrorEnv) = Inl Malformed"
    by (simp add: syntaxErrorEnv_def demoEnv_def brokenPayloadToken_def)
  have junk: "GET_me syntaxErrorEnv junkBearer demoDb = failure 401 ''Invalid authentication token''"
    using me_verify_error [OF j _ s _ v] by (simp add: Malformed_def)
  show ?thesis
    using broken_token broken_verify me tasks junk by (simp add: failure_def)
qed

section \<open>The unset secret (C9)\<close>

lemma unset_secret_no_user: "unset (NEXTAUTH_SECRET e) \<Longrightarrow> getUserFromToken e h = None"
  by (auto simp: getUserFromToken_def unset_def split: option.splits)

text \<open>
  C9, as the code has it. With \<^verbatim>\<open>NEXTAUTH_SECRET\<close> unset (or empty) no handler
  aborts the process; every request is answered. The five task endpoints answer every
  request, whatever it carries, 401 \<open>Authentication required\<close>, the answer a caller with
  no credentials gets; \<^verbatim>\<open>GET /api/auth/me\<close> answers 500 to a request that carries a
  token; \<^verbatim>\<open>POST /api/auth/login\<close> answers 500 to an email and password that are
  right.
\<close>

theorem unset_secret_per_request:
  assumes "unset (NEXTAUTH_SECRET e)" and "tid \<noteq> []"
  shows "GET_tasks e h q d = authRequired
       \<and> POST_tasks e newId h b d = (authRequired, d)
       \<and> GET_task e h tid d = authRequired
       \<and> PATCH_task e h tid b d = (authRequired, d)
       \<and> DELETE_task e h tid d = (authRequired, d)
       \<and> GET_tasks e h q d = GET_tasks e \<lparr>authorization = None, cookie = None\<rparr> q d
       \<and> (extractToken h = Some token \<and> token \<noteq> [] \<longrightarrow>
            GET_me e h d = failure 500 ''Failed to get current user'')
       \<and> (emailStr \<noteq> [] \<and> User_findOne (toLowerCase emailStr) d = Some user
            \<and> bcrypt_compare e pw (password user) = Some True \<and> pw \<noteq> [] \<longrightarrow>
            POST_login e (Object \<lparr>l_email = Some (JStr emailStr), l_password = Some (JStr pw)\<rparr>) d
              = failure 500 ''Login failed. Please try again.'')"
proof -
  have u: "getUserFromToken e h' = None" for h'
    using assms(1) by (rule unset_secret_no_user)
  have me: "GET_me e h d = failure 500 ''Failed to get current user''"
    if "extractToken h = Some token \<and> token \<noteq> []"
    using that assms(1) by (auto simp: GET_me_def unset_def split: option.splits)
  have login: "POST_login e (Object \<lparr>l_email = Some (JStr emailStr), l_password = Some (JStr pw)\<rparr>) d
              = failure 500 ''Login failed. Please try again.''"
    if "emailStr \<noteq> [] \<and> User_findOne (toLowerCase emailStr) d = Some user
            \<and> bcrypt_compare e pw (password user) = Some True \<and> pw \<noteq> []"
    using that assms(1)
    by (auto simp: POST_login_def falsy_def comparePassword_def loginFailed_def unset_def
        split: option.splits)
  show ?thesis
    using unauthenticated_everywhere [OF u assms(2)] me login
    by (simp add: GET_tasks_def u)
qed

theorem unset_secret_per_request_witness:
  "unset (NEXTAUTH_SECRET noSecretEnv)
   \<and> GET_tasks noSecretEnv bearer noQuery demoDb = authRequired
   \<and> POST_tasks noSecretEnv ''t2'' bearer (Object noFields) demoDb = (authRequired, demoDb)
   \<and> GET_task noSecretEnv bearer ''t1'' demoDb = authRequired
   \<and> PATCH_task noSecretEnv bearer ''t1'' (Object noFields) demoDb = (authRequired, demoDb)
   \<and> DELETE_task noSecretEnv bearer ''t1'' demoDb = (authRequired, demoDb)
   \<and> GET_me noSecretEnv bearer demoDb = failure 500 ''Failed to get current user''
   \<and> POST_login noSecretEnv
        (Object \<lparr>l_email = Some (JStr ''Ann@ex.co''), l_password = Some (JStr ''secret1'')\<rparr>)
        demoDb
      = failure 500 ''Login failed. Please try again.''"
proof -
  have u: "unset (NEXTAUTH_SECRET noSecretEnv)"
    by (simp add: noSecretEnv_def unset_def)
  have t: "extractToken bearer = Some ''tok''"
    by (simp add: bearer_def extractToken_def startsWith_def)
  have f: "User_findOne (toLowerCase ''Ann@ex.co'') demoDb = Some ann"
    by code_simp
  have c: "bcrypt_compare noSecretEnv ''secret1'' (password ann) = Some True"
    by (simp add: noSecretEnv_def demoEnv_def ann_def)
  show ?thesis
    using unset_secret_per_request
        [OF u, where tid = "''t1''" and h = bearer and q = noQuery and d = demoDb
           and newId = "''t2''" and b = "Object noFields" and token = "''tok''"
           and emailStr = "''Ann@ex.co''" and user = ann and pw = "''secret1''"]
      u t f c
    by simp
qed

text \<open>
  C9 as the spec states it fails: with the secret unset, a request for the task list
  that carries a token is answered, and answered 401 \<open>Authentication required\<close>, the
  very response of the configured server to a request with no credentials.
\<close>

theorem unset_secret_counterexample:
  "GET_tasks noSecretEnv bearer noQuery demoDb = GET_tasks demoEnv noHeaders noQuery demoDb
   \<and> http_status (GET_tasks noSecretEnv bearer noQuery demoDb) = 401
   \<and> error (GET_tasks noSecretEnv bearer noQuery demoDb) = Some ''Authentication required''"
  by (simp add: GET_tasks_def getUserFromToken_def noSecretEnv_def bearer_def noHeaders_def
      extractToken_def tokenFromCookies_def startsWith_def authRequired_def failure_def)

section \<open>Creating a task (C5)\<close>

lemma preSave_new:
  "status t = PENDING \<Longrightarrow> completedAt t = None \<Longrightarrow> preSave e m t = t"
  by (simp add: preSave_def)

lemma Task_create_saved:
  assumes "Task_create e newId userIdStr input d = Inr (t, d')"
  shows "status t = PENDING \<and> completedAt t = None \<and> task_id t = newId
       \<and> priority t = c_priority input \<and> category t = c_category input
       \<and> castObjectId e userIdStr = Some (userId t) \<and> tasks d' = tasks d @ [t]
       \<and> users d' = users d"
  using assms
  by (auto simp: Task_create_def Let_def preSave_def split: option.splits if_splits)

lemma POST_ignores_status:
  "POST_tasks e newId h (Object (obj\<lparr>b_status := s\<rparr>)) d = POST_tasks e newId h (Object obj) d"
  by (cases "getUserFromToken e h") (simp_all add: POST_tasks_def CreateTaskSchema_def)

text \<open>
  C5, as the code has it. A task that \<^verbatim>\<open>POST /api/tasks\<close> creates has the status
  \<open>pending\<close> (and no \<open>completedAt\<close>), and it is the one document added to the
  collection. A status cannot be specified at creation: \<^verbatim>\<open>CreateTaskSchema\<close> has no
  \<open>status\<close> key and the handler passes none to the model, so the request is answered,
  and the task stored, the same whatever the body's \<open>status\<close> field holds.
\<close>

theorem created_task_is_pending:
  assumes "POST_tasks e newId h b d = (r, d')" and "success r"
  shows "(\<exists>t. data r = TaskData t \<and> status t = PENDING \<and> completedAt t = None
            \<and> tasks d' = tasks d @ [t])
       \<and> POST_tasks e newId h (Object (obj\<lparr>b_status := s\<rparr>)) d
           = POST_tasks e newId h (Object obj) d"
proof -
  from assms obtain userIdStr input t where
    c: "Task_create e newId userIdStr input d = Inr (t, d')"
    and r: "r = succeed (TaskData t) (Some ''Task created successfully'')"
    by (auto simp: POST_tasks_def authRequired_def failure_def validationFailed_def
        mongooseValidationFailed_def
        split: option.splits if_splits body.splits sum.splits prod.splits)
  from Task_create_saved [OF c] r POST_ignores_status show ?thesis
    by (simp add: succeed_def)
qed

lemma POST_milk:
  "POST_tasks demoEnv ''t2'' bearer (Object milkBody) demoDb
     = (succeed (TaskData milk2) (Some ''Task created successfully''),
        \<lparr>users = [ann], tasks = [milk, milk2]\<rparr>)"
  by code_simp

theorem created_task_is_pending_witness:
  "POST_tasks demoEnv ''t2'' bearer (Object milkBody) demoDb
     = (succeed (TaskData milk2) (Some ''Task created successfully''),
        \<lparr>users = [ann], tasks = [milk, milk2]\<rparr>)
   \<and> (\<exists>t. data (succeed (TaskData milk2) (Some ''Task created successfully'')) = TaskData t
          \<and> status t = PENDING \<and> completedAt t = None
          \<and> tasks \<lparr>users = [ann], tasks = [milk, milk2]\<rparr> = tasks demoDb @ [t])
   \<and> POST_tasks demoEnv ''t2'' bearer (Object (milkBody\<lparr>b_status := None\<rparr>)) demoDb
       = POST_tasks demoEnv ''t2'' bearer (Object milkBody) demoDb
   \<and> POST_tasks demoEnv ''t2'' bearer
        (Object (milkBody\<lparr>b_status := Some (JStr ''in_progress'')\<rparr>)) demoDb
       = POST_tasks demoEnv ''t2'' bearer (Object milkBody) demoDb"
proof -
  have s: "success (succeed (TaskData milk2) (Some ''Task created successfully''))"
    by (simp add: succeed_def)
  show ?thesis
    using created_task_is_pending [OF POST_milk s, where obj = milkBody and s = None]
      created_task_is_pending
        [OF POST_milk s, where obj = milkBody and s = "Some (JStr ''in_progress'')"]
      POST_milk
    by simp
qed

text \<open>
  C5 as the spec states it fails where a status is specified: the body asks for the
  status \<open>completed\<close>, a value of the enum, and the task is created and stored with the
  status \<open>pending\<close>.
\<close>

theorem created_status_counterexample:
  "b_status milkBody = Some (JStr ''completed'')
   \<and> parseStatus ''completed'' = Some COMPLETED
   \<and> POST_tasks demoEnv ''t2'' bearer (Object milkBody) demoDb
       = (succeed (TaskData milk2) (Some ''Task created successfully''),
          \<lparr>users = [ann], tasks = [milk, milk2]\<rparr>)
   \<and> status milk2 = PENDING
   \<and> status milk2 \<noteq> COMPLETED"
  using POST_milk by (simp add: milkBody_def parseStatus_def milk2_def milk_def)

section \<open>The \<open>completedAt\<close> derivation (C1)\<close>

lemma updateFirst_map:
  assumes "\<And>x. g (f x) = g x"
  shows "map g (snd (updateFirst P f xs)) = map g xs"
  using assms by (induction xs) (auto split: prod.splits)

lemma applyUpdate_completedAt: "completedAt (applyUpdate e u t) = completedAt t"
  by (simp add: applyUpdate_def)

text \<open>The middleware, where it runs on a changed status, derives \<open>completedAt\<close> as
  the claim says: set exactly when the status is \<open>completed\<close>, and kept when already set.\<close>

lemma preSave_derives:
  "(status (preSave e True t) = COMPLETED) = (completedAt (preSave e True t) \<noteq> None)"
  by (simp add: preSave_def)

lemma preSave_idempotent:
  "status t = COMPLETED \<Longrightarrow> completedAt t = Some c \<Longrightarrow> preSave e True t = t"
  by (simp add: preSave_def)

text \<open>An update never writes \<open>completedAt\<close>, whatever the request sets.\<close>

lemma findOneAndUpdate_keeps_completedAt:
  assumes "Task_findOneAndUpdate e tid userIdStr updateData d = Inr (r, d')"
  shows "map completedAt (tasks d') = map completedAt (tasks d)"
proof -
  from assms obtain f u where
    "updateFirst (ownedBy f) (applyUpdate e u) (tasks d) = (r, tasks d')"
    by (auto simp: Task_findOneAndUpdate_def split: option.splits if_splits prod.splits)
  then have "tasks d' = snd (updateFirst (ownedBy f) (applyUpdate e u) (tasks d))"
    by simp
  then show ?thesis
    by (simp add: updateFirst_map applyUpdate_completedAt)
qed

text \<open>
  C1 fails on \<^verbatim>\<open>PATCH\<close>. The owner of the pending task \<open>t1\<close> sends
  \<^verbatim>\<open>{"status": "completed"}\<close>: the request succeeds and the stored task has the status
  \<open>completed\<close> with \<open>completedAt\<close> still unset. The derivation lives in the
  \<^verbatim>\<open>pre('save')\<close> middleware, which \<^verbatim>\<open>findOneAndUpdate\<close> does not run.
\<close>

theorem PATCH_completed_leaves_completedAt_unset:
  "PATCH_task demoEnv bearer ''t1'' (Object completeBody) demoDb
     = (succeed (TaskData milkDone) (Some ''Task updated successfully''),
        \<lparr>users = [ann], tasks = [milkDone]\<rparr>)
   \<and> status milkDone = COMPLETED
   \<and> completedAt milkDone = None"
proof -
  have "PATCH_task demoEnv bearer ''t1'' (Object completeBody) demoDb
     = (succeed (TaskData milkDone) (Some ''Task updated successfully''),
        \<lparr>users = [ann], tasks = [milkDone]\<rparr>)"
    by code_simp
  then show ?thesis
    by (simp add: milkDone_def milk_def)
qed

section \<open>Login failures (C4)\<close>

lemma login_unknown_email:
  assumes "emailStr \<noteq> []" and "p \<noteq> []"
    and "\<forall>u\<in>set (users d). email u \<noteq> emailSetter (toLowerCase emailStr)"
  shows "POST_login e (Object \<lparr>l_email = Some (JStr emailStr), l_password = Some (JStr p)\<rparr>) d
           = invalidCredentials"
proof -
  have "User_findOne (toLowerCase emailStr) d = None"
    using assms(3) by (auto simp: User_findOne_def find_None_iff)
  then show ?thesis
    using assms(1,2) by (simp add: POST_login_def falsy_def)
qed

lemma login_wrong_password:
  assumes "emailStr \<noteq> []" and "p \<noteq> []"
    and "User_findOne (toLowerCase emailStr) d = Some user"
    and "bcrypt_compare e p (password user) \<noteq> Some True"
  shows "POST_login e (Object \<lparr>l_email = Some (JStr emailStr), l_password = Some (JStr p)\<rparr>) d
           = invalidCredentials"
proof -
  have "\<not> comparePassword e user (JStr p)"
    using assms(4) by (auto simp: comparePassword_def split: option.splits)
  then show ?thesis
    using assms(1-3) by (simp add: POST_login_def falsy_def)
qed

text \<open>
  C4. Two login requests with a body of two non-empty strings: the email of the first
  belongs to no user; the email of the second belongs to a user, and the password does
  not match the stored hash. Both get the same response: 401 with the error
  \<open>Invalid email or password\<close>, no data and no cookie.
\<close>

theorem login_failures_identical:
  assumes "email1 \<noteq> []" and "p1 \<noteq> []" and "email2 \<noteq> []" and "p2 \<noteq> []"
    and "\<forall>u\<in>set (users d1). email u \<noteq> emailSetter (toLowerCase email1)"
    and "User_findOne (toLowerCase email2) d2 = Some user"
    and "bcrypt_compare e p2 (password user) \<noteq> Some True"
  shows "POST_login e (Object \<lparr>l_email = Some (JStr email1), l_password = Some (JStr p1)\<rparr>) d1
           = POST_login e (Object \<lparr>l_email = Some (JStr email2), l_password = Some (JStr p2)\<rparr>) d2
       \<and> POST_login e (Object \<lparr>l_email = Some (JStr email2), l_password = Some (JStr p2)\<rparr>) d2
           = \<lparr>http_status = 401, success = False, error = Some ''Invalid email or password'',
              message = None, data = NoData, fieldErrors = None, details = None,
              setCookie = None\<rparr>"
  using login_unknown_email [OF assms(1,2,5)] login_wrong_password [OF assms(3,4,6,7)]
  by (simp add: invalidCredentials_def failure_def)

theorem login_failures_identical_witness:
  "User_findOne (toLowerCase ''Bob@ex.co'') demoDb = None
   \<and> User_findOne (toLowerCase ''Ann@ex.co'') demoDb = Some ann
   \<and> bcrypt_compare demoEnv ''wrong'' (password ann) \<noteq> Some True
   \<and> POST_login demoEnv
        (Object \<lparr>l_email = Some (JStr ''Bob@ex.co''), l_password = Some (JStr ''secret1'')\<rparr>) demoDb
      = POST_login demoEnv
          (Object \<lparr>l_email = Some (JStr ''Ann@ex.co''), l_password = Some (JStr ''wrong'')\<rparr>) demoDb
   \<and> POST_login demoEnv
        (Object \<lparr>l_email = Some (JStr ''Ann@ex.co''), l_password = Some (JStr ''wrong'')\<rparr>) demoDb
      = \<lparr>http_status = 401, success = False, error = Some ''Invalid email or password'',
         message = None, data = NoData, fieldErrors = None, details = None, setCookie = None\<rparr>"
proof -
  have a: "\<forall>u\<in>set (users demoDb). email u \<noteq> emailSetter (toLowerCase ''Bob@ex.co'')"
    by code_simp
  have b: "User_findOne (toLowerCase ''Ann@ex.co'') demoDb = Some ann"
    by code_simp
  have n: "User_findOne (toLowerCase ''Bob@ex.co'') demoDb = None"
    by code_simp
  have c: "bcrypt_compare demoEnv ''wrong'' (password ann) \<noteq> Some True"
    by (simp add: demoEnv_def ann_def)
  show ?thesis
    using login_failures_identical [OF _ _ _ _ a b c, of "''secret1''"] n b c
    by simp
qed

section \<open>Ownership in the query (C2)\<close>







text \<open>An id that is no \<^verbatim>\<open>ObjectId\<close> makes the query throw a \<^verbatim>\<open>CastError\<close>, which each
  handler answers with its 500.\<close>

lemma no_ObjectId_500:
  assumes "getUserFromToken e h = Some a" and "a \<noteq> []" and "tid \<noteq> []"
    and "castObjectId e tid = None"
  shows "GET_task e h tid d = failure 500 ''Failed to fetch task''"
    and "DELETE_task e h tid d = (failure 500 ''Failed to delete task'', d)"
    and "UpdateTaskSchema e obj = Inr u
         \<Longrightarrow> PATCH_task e h tid (Object obj) d = (failure 500 ''Failed to update task'', d)"
  using assms
  by (simp_all add: GET_task_def DELETE_task_def PATCH_task_def TaskIdSchema_nonempty
      Task_findOne_def Task_findOneAndDelete_def Task_findOneAndUpdate_def castFilter_def)


lemma demo_user: "getUserFromToken demoEnv bearer = Some ''u1''"
  by code_simp




section \<open>Listing tasks (C6)\<close>

lemma optional_Some:
  "optional f (orUndefined v) = Some r \<Longrightarrow>
     r = (case v of None \<Rightarrow> None | Some s \<Rightarrow> if s = [] then None else f s)"
  by (auto simp: optional_def orUndefined_def split: option.splits if_splits)

lemma TaskQuerySchema_Inr:
  assumes "TaskQuerySchema q = Inr f"
  shows "f_status f = (case q_status q of None \<Rightarrow> None
                       | Some s \<Rightarrow> if s = [] then None else parseStatus s)"
    and "f_priority f = (case q_priority q of None \<Rightarrow> None
                         | Some s \<Rightarrow> if s = [] then None else parsePriority s)"
    and "f_category f = (case q_category q of None \<Rightarrow> None
                         | Some s \<Rightarrow> if s = [] then None else parseCategory s)"
  using assms
  by (auto simp: TaskQuerySchema_def Let_def dest!: optional_Some split: option.splits)

lemma matchesFilter_iff:
  "matchesFilter u f t =
     (userId t = u
      \<and> (\<forall>s. f_status f = Some s \<longrightarrow> status t = s)
      \<and> (\<forall>p. f_priority f = Some p \<longrightarrow> priority t = p)
      \<and> (\<forall>c. f_category f = Some c \<longrightarrow> category t = c))"
  by (auto simp: matchesFilter_def split: option.splits)

lemma newest_first:
  "sorted_wrt (\<lambda>x y. createdAt y \<le> createdAt x) (sort_key (\<lambda>t. - createdAt t) xs)"
proof -
  have "sorted (map (\<lambda>t. - createdAt t) (sort_key (\<lambda>t. - createdAt t) xs))"
    by (rule sorted_sort_key)
  then show ?thesis
    by (simp add: sorted_map)
qed

text \<open>
  C6. The caller is authenticated (\<open>u\<close> is the caller's id) and the query parameters
  pass validation, giving the filter \<open>f\<close>. The response is 200 and its data holds, each
  once, exactly the tasks of the collection that \<open>u\<close> owns and that are equal to the
  filter on every field the filter has; they come newest first by \<open>createdAt\<close>. A
  field of the filter is present exactly when the query parameter is present and not
  empty, and then it is the enum value the parameter names.
\<close>

theorem list_owner_scoped_filtered_newest_first:
  assumes "getUserFromToken e h = Some a" and "a \<noteq> []"
    and "castObjectId e a = Some u" and "TaskQuerySchema q = Inr f"
  shows "\<exists>ts. GET_tasks e h q d = succeed (TasksData ts) (Some ''Tasks fetched successfully'')
           \<and> mset ts =
               {#t \<in># mset (tasks d).
                  userId t = u
                  \<and> (\<forall>s. f_status f = Some s \<longrightarrow> status t = s)
                  \<and> (\<forall>p. f_priority f = Some p \<longrightarrow> priority t = p)
                  \<and> (\<forall>c. f_category f = Some c \<longrightarrow> category t = c)#}
           \<and> sorted_wrt (\<lambda>x y. createdAt y \<le> createdAt x) ts
           \<and> f_status f = (case q_status q of None \<Rightarrow> None
                            | Some s \<Rightarrow> if s = [] then None else parseStatus s)
           \<and> f_priority f = (case q_priority q of None \<Rightarrow> None
                              | Some s \<Rightarrow> if s = [] then None else parsePriority s)
           \<and> f_category f = (case q_category q of None \<Rightarrow> None
                              | Some s \<Rightarrow> if s = [] then None else parseCategory s)"
proof -
  let ?ts = "sort_key (\<lambda>t. - createdAt t) (filter (matchesFilter u f) (tasks d))"
  have r: "GET_tasks e h q d = succeed (TasksData ?ts) (Some ''Tasks fetched successfully'')"
    using assms by (simp add: GET_tasks_def Task_find_def)
  have m: "mset ?ts = filter_mset (matchesFilter u f) (mset (tasks d))"
    by simp
  have "matchesFilter u f =
          (\<lambda>t. userId t = u
             \<and> (\<forall>s. f_status f = Some s \<longrightarrow> status t = s)
             \<and> (\<forall>p. f_priority f = Some p \<longrightarrow> priority t = p)
             \<and> (\<forall>c. f_category f = Some c \<longrightarrow> category t = c))"
    by (rule ext) (rule matchesFilter_iff)
  with m have m': "mset ?ts =
               {#t \<in># mset (tasks d).
                  userId t = u
                  \<and> (\<forall>s. f_status f = Some s \<longrightarrow> status t = s)
                  \<and> (\<forall>p. f_priority f = Some p \<longrightarrow> priority t = p)
                  \<and> (\<forall>c. f_category f = Some c \<longrightarrow> category t = c)#}"
    by simp
  show ?thesis
    using r m' newest_first [of "filter (matchesFilter u f) (tasks d)"]
      TaskQuerySchema_Inr [OF assms(4)]
    by blast
qed

lemma GET_pending:
  "GET_tasks demoEnv bearer pendingQuery demoDb3
     = succeed (TasksData [milkLater, milk]) (Some ''Tasks fetched successfully'')"
  by code_simp

theorem list_owner_scoped_filtered_newest_first_witness:
  "TaskQuerySchema pendingQuery = Inr pendingFilter
   \<and> GET_tasks demoEnv bearer pendingQuery demoDb3
       = succeed (TasksData [milkLater, milk]) (Some ''Tasks fetched successfully'')
   \<and> (\<exists>ts. GET_tasks demoEnv bearer pendingQuery demoDb3
              = succeed (TasksData ts) (Some ''Tasks fetched successfully'')
          \<and> mset ts =
               {#t \<in># mset (tasks demoDb3).
                  userId t = ''u1''
                  \<and> (\<forall>s. f_status pendingFilter = Some s \<longrightarrow> status t = s)
                  \<and> (\<forall>p. f_priority pendingFilter = Some p \<longrightarrow> priority t = p)
                  \<and> (\<forall>c. f_category pendingFilter = Some c \<longrightarrow> category t = c)#}
          \<and> sorted_wrt (\<lambda>x y. createdAt y \<le> createdAt x) ts)"
proof -
  have c: "castObjectId demoEnv ''u1'' = Some ''u1''"
    by (simp add: demoEnv_def)
  have s: "TaskQuerySchema pendingQuery = Inr pendingFilter"
    by code_simp
  have "''u1'' \<noteq> []"
    by simp
  from list_owner_scoped_filtered_newest_first [OF demo_user this c s, of demoDb3] s GET_pending
  show ?thesis
    by blast
qed

section \<open>Issuing and verifying a token (C8)\<close>

lemma clock_after:
  assumes "now e + 1000 * int sevenDays \<le> t"
  shows "clock e + int sevenDays \<le> clock (e\<lparr>now := t\<rparr>)"
proof -
  have "(now e + 1000 * int sevenDays) div 1000 \<le> t div 1000"
    using assms by (rule zdiv_mono1) simp
  then show ?thesis
    by (simp add: clock_def)
qed

lemma login_success:
  assumes "emailStr \<noteq> []" and "p \<noteq> []"
    and "User_findOne (toLowerCase emailStr) d = Some user"
    and "bcrypt_compare e p (password user) = Some True"
    and "NEXTAUTH_SECRET e = Some secret" and "secret \<noteq> []"
  shows "POST_login e (Object \<lparr>l_email = Some (JStr emailStr), l_password = Some (JStr p)\<rparr>) d
           = (succeed (LoginData (toUserResponse user)
                         (jwt_sign e (user_id user, email user) secret (int sevenDays) (clock e)))
                (Some ''Login successful''))
             \<lparr>setCookie :=
                Some (''auth-token'',
                      jwt_sign e (user_id user, email user) secret (int sevenDays) (clock e),
                      sevenDays)\<rparr>"
  using assms by (simp add: POST_login_def falsy_def comparePassword_def Let_def)

lemma takeWhile_x:
  "takeWhile (\<lambda>c. c = CHR ''x'') (replicate n CHR ''x'' @ CHR ''.'' # r) = replicate n CHR ''x''"
  by (induction n) simp_all

lemma unframe_frame: "unframe (frame s @ r) = Some (s, r)"
  by (simp add: unframe_def frame_def takeWhile_x)

lemma digitVal_digitChar:
  assumes "d < 10"
  shows "digitVal (digitChar d) = d"
proof -
  from assms have "d \<in> {0, 1, 2, 3, 4, 5, 6, 7, 8, 9}"
    by auto
  then show ?thesis
    by (auto simp: digitVal_def digitChar_def)
qed

lemma decNat_snoc: "decNat (s @ [c]) = 10 * decNat s + digitVal c"
  by (simp add: decNat_def)

lemma decNat_encNat: "decNat (encNat n) = n"
proof (induction n rule: encNat.induct)
  case (1 n)
  show ?case
  proof (cases "n < 10")
    case True
    then show ?thesis
      by (simp add: encNat.simps [of n] decNat_def digitVal_digitChar)
  next
    case False
    then have "decNat (encNat n) = 10 * decNat (encNat (n div 10)) + n mod 10"
      by (simp add: encNat.simps [of n] decNat_snoc digitVal_digitChar)
    with 1 False show ?thesis
      by simp
  qed
qed

lemma decInt_encInt: "decInt (encInt i) = i"
  by (simp add: decInt_def encInt_def decNat_encNat)

lemma decodePayload_encodePayload: "decodePayload (encodePayload p) = Some p"
proof -
  have "decodePayload (frame u @ frame m @ frame (encInt i) @ frame (encInt x))
          = Some \<lparr>jwt_userId = u, jwt_email = m, iat = i, exp = x\<rparr>" for u m i x
    using unframe_frame [of "encInt x" "[]"]
    by (simp add: decodePayload_def unframe_frame decInt_encInt)
  from this [of "jwt_userId p" "jwt_email p" "iat p" "exp p"] show ?thesis
    by (simp add: encodePayload_def)
qed

text \<open>The verifier on an issued token, under the secret that signed it, at any time.\<close>

lemma verifyToken_issueToken:
  "verifyToken mac (issueToken mac (u, m) secret expiresIn c) secret c' =
     (if c + expiresIn \<le> c' then Inl Expired
      else Inr \<lparr>jwt_userId = u, jwt_email = m, iat = c, exp = c + expiresIn\<rparr>)"
  by (simp add: verifyToken_def issueToken_def Let_def unframe_frame decodePayload_encodePayload)

text \<open>Under a secret whose hash of the payload differs, the signature is refused.\<close>

lemma verifyToken_other_secret:
  assumes "mac secret' (encodePayload \<lparr>jwt_userId = u, jwt_email = m, iat = c, exp = c + expiresIn\<rparr>)
     \<noteq> mac secret (encodePayload \<lparr>jwt_userId = u, jwt_email = m, iat = c, exp = c + expiresIn\<rparr>)"
  shows "verifyToken mac (issueToken mac (u, m) secret expiresIn c) secret' c' = Inl SignatureInvalid"
  using assms
  by (simp add: verifyToken_def issueToken_def Let_def unframe_frame decodePayload_encodePayload)

lemma issueToken_nonempty: "issueToken mac p secret expiresIn c \<noteq> []"
  by (simp add: issueToken_def Let_def frame_def)

text \<open>
  C8. The issuer and the verifier are the ones modelled above, with any keyed hash
  \<open>mac\<close>. A login with the right password for the user \<open>user\<close> succeeds while the
  secret is configured; \<open>token\<close> is what the issuer returns for the user's id and
  email, the secret and seven days (604800 seconds), and the login response and the
  cookie carry it. Verified in the same instant with the same secret it resolves to
  exactly the user's id and email, and a request that presents it as a bearer token is
  the user's. At any time \<open>c\<close> verification gives that payload before the expiry and
  the expiry error from the expiry on; so seven days later or more, verification
  fails with the expiry error, the request has no user, and \<^verbatim>\<open>GET /api/auth/me\<close>
  answers 401.
\<close>

theorem issued_token_round_trip:
  assumes "emailStr \<noteq> []" and "p \<noteq> []"
    and "User_findOne (toLowerCase emailStr) d = Some user"
    and "bcrypt_compare e p (password user) = Some True"
    and "NEXTAUTH_SECRET e = Some secret" and "secret \<noteq> []"
    and "jwt_sign e = issueToken mac" and "jwt_verify e = verifyToken mac"
    and "token = issueToken mac (user_id user, email user) secret 604800 (clock e)"
  shows "POST_login e (Object \<lparr>l_email = Some (JStr emailStr), l_password = Some (JStr p)\<rparr>) d
           = (succeed (LoginData (toUserResponse user) token) (Some ''Login successful''))
             \<lparr>setCookie := Some (''auth-token'', token, 604800)\<rparr>
       \<and> jwt_verify e token secret (clock e)
           = Inr \<lparr>jwt_userId = user_id user, jwt_email = email user, iat = clock e,
                  exp = clock e + 604800\<rparr>
       \<and> getUserFromToken e \<lparr>authorization = Some (''Bearer '' @ token), cookie = ck\<rparr>
           = Some (user_id user)
       \<and> (\<forall>c. jwt_verify e token secret c
                = (if clock e + 604800 \<le> c then Inl Expired
                   else Inr \<lparr>jwt_userId = user_id user, jwt_email = email user, iat = clock e,
                              exp = clock e + 604800\<rparr>))
       \<and> (\<forall>t. now e + 1000 * 604800 \<le> t \<longrightarrow>
             jwt_verify (e\<lparr>now := t\<rparr>) token secret (clock (e\<lparr>now := t\<rparr>)) = Inl Expired
             \<and> getUserFromToken (e\<lparr>now := t\<rparr>)
                 \<lparr>authorization = Some (''Bearer '' @ token), cookie = ck\<rparr> = None
             \<and> GET_me (e\<lparr>now := t\<rparr>) \<lparr>authorization = Some (''Bearer '' @ token), cookie = ck\<rparr> d'
                 = failure 401 ''Invalid authentication token'')"
proof -
  define hdr where "hdr = \<lparr>authorization = Some (''Bearer '' @ token), cookie = ck\<rparr>"
  have ne: "token \<noteq> []"
    by (simp add: assms(9) issueToken_nonempty)
  have x: "extractToken hdr = Some token"
    by (simp add: hdr_def extractToken_def startsWith_def)
  have seven: "int sevenDays = 604800" "sevenDays = 604800"
    by (simp_all add: sevenDays_def)
  have a: "jwt_verify e token secret c
             = (if clock e + 604800 \<le> c then Inl Expired
                else Inr \<lparr>jwt_userId = user_id user, jwt_email = email user, iat = clock e,
                           exp = clock e + 604800\<rparr>)" for c
    by (simp only: assms(8,9) verifyToken_issueToken)
  have v: "jwt_verify e token secret (clock e)
           = Inr \<lparr>jwt_userId = user_id user, jwt_email = email user, iat = clock e,
                  exp = clock e + 604800\<rparr>"
    by (simp add: a)
  have u: "getUserFromToken e hdr = Some (user_id user)"
    using assms(5,6) ne by (simp add: getUserFromToken_def x v)
  have late: "jwt_verify (e\<lparr>now := t\<rparr>) token secret (clock (e\<lparr>now := t\<rparr>)) = Inl Expired
             \<and> getUserFromToken (e\<lparr>now := t\<rparr>) hdr = None
             \<and> GET_me (e\<lparr>now := t\<rparr>) hdr d' = failure 401 ''Invalid authentication token''"
    if "now e + 1000 * 604800 \<le> t" for t
  proof -
    have "clock e + int sevenDays \<le> clock (e\<lparr>now := t\<rparr>)"
      using that by (intro clock_after) (simp add: seven)
    then have w: "jwt_verify (e\<lparr>now := t\<rparr>) token secret (clock (e\<lparr>now := t\<rparr>)) = Inl Expired"
      using a [of "clock (e\<lparr>now := t\<rparr>)"] by (simp add: seven)
    show ?thesis
      using assms(5,6) ne w
      by (simp add: getUserFromToken_def GET_me_def x Expired_def)
  qed
  have l: "POST_login e (Object \<lparr>l_email = Some (JStr emailStr), l_password = Some (JStr p)\<rparr>) d
           = (succeed (LoginData (toUserResponse user) token) (Some ''Login successful''))
             \<lparr>setCookie := Some (''auth-token'', token, 604800)\<rparr>"
    using login_success [OF assms(1-6)] by (simp add: seven assms(7,9))
  show ?thesis
    unfolding hdr_def [symmetric]
    using l v u a late by blast
qed

lemma ann_payload:
  "encodePayload \<lparr>jwt_userId = ''u1'', jwt_email = ''ann@ex.co'', iat = 1000, exp = 605800\<rparr>
     = annPayload"
  by (simp add: encodePayload_def frame_def encInt_def encNat.simps digitChar_def annPayload_def)

lemma ann_mac: "demoMac ''s3cret'' annPayload = ''29453''"
  by (simp add: demoMac_def checksum_def annPayload_def encNat.simps digitChar_def)

lemma ann_token: "issueToken demoMac (''u1'', ''ann@ex.co'') ''s3cret'' 604800 1000 = annToken"
proof -
  have "frame annPayload @ ''29453'' = annToken"
    by (simp add: frame_def annPayload_def annToken_def)
  then show ?thesis
    by (simp add: issueToken_def Let_def ann_payload ann_mac)
qed

theorem issued_token_round_trip_witness:
  "issueToken demoMac (''u1'', ''ann@ex.co'') ''s3cret'' 604800 1000 = annToken
   \<and> POST_login tokenEnv
       (Object \<lparr>l_email = Some (JStr ''Ann@ex.co''), l_password = Some (JStr ''secret1'')\<rparr>) demoDb
       = (succeed (LoginData (toUserResponse ann) annToken) (Some ''Login successful''))
         \<lparr>setCookie := Some (''auth-token'', annToken, 604800)\<rparr>
   \<and> jwt_verify tokenEnv annToken ''s3cret'' (clock tokenEnv)
       = Inr \<lparr>jwt_userId = ''u1'', jwt_email = ''ann@ex.co'', iat = 1000, exp = 605800\<rparr>
   \<and> getUserFromToken tokenEnv annBearer = Some ''u1''
   \<and> jwt_verify tokenEnv annToken ''s3cret'' 605799
       = Inr \<lparr>jwt_userId = ''u1'', jwt_email = ''ann@ex.co'', iat = 1000, exp = 605800\<rparr>
   \<and> jwt_verify tokenEnv annToken ''s3cret'' 605800 = Inl Expired
   \<and> jwt_verify tokenLaterEnv annToken ''s3cret'' (clock tokenLaterEnv) = Inl Expired
   \<and> getUserFromToken tokenLaterEnv annBearer = None
   \<and> GET_me tokenLaterEnv annBearer demoDb = failure 401 ''Invalid authentication token''"
proof -
  have f: "User_findOne (toLowerCase ''Ann@ex.co'') demoDb = Some ann"
    by code_simp
  have c: "bcrypt_compare tokenEnv ''secret1'' (password ann) = Some True"
    by (simp add: tokenEnv_def demoEnv_def ann_def)
  have s: "NEXTAUTH_SECRET tokenEnv = Some ''s3cret''"
    by (simp add: tokenEnv_def demoEnv_def)
  have j: "jwt_sign tokenEnv = issueToken demoMac" "jwt_verify tokenEnv = verifyToken demoMac"
    by (simp_all add: tokenEnv_def)
  have k: "clock tokenEnv = 1000" "user_id ann = ''u1''" "email ann = ''ann@ex.co''"
    by (simp_all add: tokenEnv_def demoEnv_def clock_def ann_def)
  have t: "annToken = issueToken demoMac (user_id ann, email ann) ''s3cret'' 604800 (clock tokenEnv)"
    by (simp only: k ann_token)
  have n: "now tokenEnv + 1000 * 604800 \<le> 1000000000"
    by (simp add: tokenEnv_def demoEnv_def)
  have l: "clock tokenLaterEnv = clock (tokenEnv\<lparr>now := 1000000000\<rparr>)"
    "tokenLaterEnv = tokenEnv\<lparr>now := 1000000000\<rparr>"
    by (simp_all add: tokenLaterEnv_def)
  have b: "annBearer = \<lparr>authorization = Some (''Bearer '' @ annToken), cookie = None\<rparr>"
    by (simp add: annBearer_def)
  note r = issued_token_round_trip [OF _ _ f c s _ j t, where ck = None and d' = demoDb]
  have r': "''Ann@ex.co'' \<noteq> []" "''secret1'' \<noteq> []" "''s3cret'' \<noteq> []"
    by simp_all
  note q = r [OF r']
  note at = q [THEN conjunct2, THEN conjunct2, THEN conjunct2, THEN conjunct1, rule_format]
  note late = q [THEN conjunct2, THEN conjunct2, THEN conjunct2, THEN conjunct2, rule_format, OF n]
  from q at [of 605799] at [of 605800] late show ?thesis
    unfolding b l(2) k
    by (simp add: ann_token)
qed

section \<open>Email case (C10)\<close>





















end
